theory Spec2Isabelle
  imports Complex_Main
begin

section \<open>Python values, errors and byte strings\<close>

text \<open>
  The torrent metadata reaches the program as the value \<^verbatim>\<open>bencodepy.decode\<close> returns: integers,
  byte strings, lists and dictionaries keyed by byte strings. \<open>PStr\<close> is a Python \<^verbatim>\<open>str\<close>; the
  decoder never produces one, but \<^verbatim>\<open>DownloadService.create_download\<close> passes lists of them to
  \<^verbatim>\<open>Download.add_files\<close>. A \<^verbatim>\<open>bytes\<close> value is the list of its bytes, a \<^verbatim>\<open>str\<close> the list of the
  bytes of its UTF-8 encoding. A dictionary is the list of its items; a real dictionary has
  pairwise distinct keys, and \<open>map_of\<close> is its lookup.
\<close>

datatype pyval =
    PInt int
  | PBytes string
  | PStr string
  | PList "pyval list"
  | PDict "(string \<times> pyval) list"

datatype error =
    KeyError
  | TypeError
  | IndexError
  | AttributeError
  | ZeroDivisionError
  | OverflowError
  | UnicodeDecodeError
  | OSError

definition ebind :: "error + 'a \<Rightarrow> ('a \<Rightarrow> error + 'b) \<Rightarrow> error + 'b" where
  "ebind m f = (case m of Inl e \<Rightarrow> Inl e | Inr v \<Rightarrow> f v)"

section \<open>Data model (models/torrent.py, models/api.py, models/download.py, app.py)\<close>

record Piece =
  index :: int
  size_p :: int
  hash :: pyval
  data :: "string option"
  downloaded_p :: bool

record TorrentFile =
  path :: string
  length_f :: int
  offset :: int
  downloaded_f :: bool
  selected :: bool

record TorrentInfo =
  name_ti :: string
  total_size_ti :: int
  piece_length_ti :: int
  pieces_ti :: "Piece list"
  files_ti :: "TorrentFile list"
  is_multi_file_ti :: bool
  info_hash_ti :: string

record DownloadSettings =
  speed_limit :: int
  upload_limit :: int
  max_peers :: int
  max_connections :: int
  piece_timeout :: int
  request_timeout :: int
  auto_stop :: bool
  sequential_download :: bool
  verify_pieces :: bool
  pre_allocate :: bool
  simulation_delay :: real

text \<open>The four state classes of models/download.py; they carry no data of their own.\<close>

datatype DownloadState = StoppedState | DownloadingState | PausedState | CompletedState

text \<open>
  The \<^verbatim>\<open>Download\<close> class. app.py and models/download.py declare the same fields; the
  \<open>state\<close> object exists in models/download.py only, and the functions modelled from app.py never
  read it. The lock, thread and executor are left out; \<^verbatim>\<open>download_folder\<close> and \<^verbatim>\<open>state_file\<close> are
  functions of \<open>download_dir\<close> and \<open>torrent_id\<close>. The fields that hold wall-clock readings
  (\<^verbatim>\<open>start_time\<close>, \<^verbatim>\<open>download_speed\<close>, \<^verbatim>\<open>upload_speed\<close>) are left out as well, and so is every
  \<^verbatim>\<open>sleep\<close>: the model has no time. The progress, a float in the program, is the real that the
  float approximates: the quotient and the product that give it are taken exactly. The
  quotient that gives the number of pieces is the float itself (\<open>true_divide\<close> below).
\<close>

record Download =
  torrent_id :: string
  name :: string
  total_size :: int
  pieces :: "Piece list"
  download_dir :: string
  settings :: DownloadSettings
  is_multi_file :: bool
  files :: "TorrentFile list"
  downloading :: bool
  paused :: bool
  download_progress :: real
  downloaded_size :: int
  completed :: bool
  downloaded_pieces :: "int set"
  state :: DownloadState

section \<open>The state classes (models/download.py, lines 52-138)\<close>

fun state_start :: "DownloadState \<Rightarrow> Download \<Rightarrow> Download \<times> bool" where
  "state_start StoppedState download =
     (download\<lparr>state := DownloadingState, downloading := True, paused := False\<rparr>, True)"
| "state_start DownloadingState download = (download, False)"
| "state_start PausedState download = (download, False)"
| "state_start CompletedState download = (download, False)"

fun state_pause :: "DownloadState \<Rightarrow> Download \<Rightarrow> Download \<times> bool" where
  "state_pause StoppedState download = (download, False)"
| "state_pause DownloadingState download =
     (download\<lparr>state := PausedState, paused := True\<rparr>, True)"
| "state_pause PausedState download = (download, False)"
| "state_pause CompletedState download = (download, False)"

fun state_resume :: "DownloadState \<Rightarrow> Download \<Rightarrow> Download \<times> bool" where
  "state_resume StoppedState download = (download, False)"
| "state_resume DownloadingState download = (download, False)"
| "state_resume PausedState download =
     (download\<lparr>state := DownloadingState, paused := False\<rparr>, True)"
| "state_resume CompletedState download = (download, False)"

fun state_stop :: "DownloadState \<Rightarrow> Download \<Rightarrow> Download \<times> bool" where
  "state_stop StoppedState download = (download, False)"
| "state_stop DownloadingState download =
     (download\<lparr>state := StoppedState, downloading := False, paused := False\<rparr>, True)"
| "state_stop PausedState download =
     (download\<lparr>state := StoppedState, downloading := False, paused := False\<rparr>, True)"
| "state_stop CompletedState download = (download, False)"

fun get_name :: "DownloadState \<Rightarrow> string" where
  "get_name StoppedState = ''stopped''"
| "get_name DownloadingState = ''downloading''"
| "get_name PausedState = ''paused''"
| "get_name CompletedState = ''completed''"

text \<open>
  The four operations as events; \<open>dispatch\<close> is the call \<^verbatim>\<open>self.state.<event>(self)\<close>: the method
  of the class of the current state object, applied to the download.
\<close>

datatype event = Start | Pause | Resume | Stop

fun dispatch :: "event \<Rightarrow> Download \<Rightarrow> Download \<times> bool" where
  "dispatch Start download = state_start (state download) download"
| "dispatch Pause download = state_pause (state download) download"
| "dispatch Resume download = state_resume (state download) download"
| "dispatch Stop download = state_stop (state download) download"

text \<open>
  The transition table as the specification lists it (section 4.2), written from the
  specification's words, to be compared with the classes above.
\<close>

definition transition_table :: "((DownloadState \<times> event) \<times> DownloadState) list" where
  "transition_table =
     [((StoppedState, Start), DownloadingState),
      ((DownloadingState, Pause), PausedState),
      ((DownloadingState, Stop), StoppedState),
      ((PausedState, Resume), DownloadingState),
      ((PausedState, Stop), StoppedState)]"

definition listed :: "DownloadState \<Rightarrow> event \<Rightarrow> DownloadState option" where
  "listed s e = map_of transition_table (s, e)"

definition example_settings :: DownloadSettings where
  "example_settings =
     \<lparr>speed_limit = 0, upload_limit = 0, max_peers = 50, max_connections = 100,
      piece_timeout = 30, request_timeout = 60, auto_stop = True,
      sequential_download = False, verify_pieces = True, pre_allocate = True,
      simulation_delay = 1 / 10000\<rparr>"

definition example_piece :: "int \<Rightarrow> int \<Rightarrow> Piece" where
  "example_piece i n =
     \<lparr>index = i, size_p = n, hash = PBytes [], data = None, downloaded_p = False\<rparr>"

definition example_download :: Download where
  "example_download =
     \<lparr>torrent_id = ''0123456789abcdef'', name = ''a.bin'', total_size = 20,
      pieces = [example_piece 0 10, example_piece 1 10],
      download_dir = ''downloads'', settings = example_settings, is_multi_file = False,
      files = [], downloading = False, paused = False, download_progress = 0,
      downloaded_size = 0, completed = False, downloaded_pieces = {},
      state = StoppedState\<rparr>"

section \<open>Python operations on values\<close>

text \<open>
  \<^verbatim>\<open>v[key]\<close> with a byte-string key: a dictionary looks the key up and raises \<^verbatim>\<open>KeyError\<close> when
  it is missing; an integer, a byte string, a string or a list raises \<^verbatim>\<open>TypeError\<close>.
\<close>

fun getitem :: "pyval \<Rightarrow> string \<Rightarrow> error + pyval" where
  "getitem (PDict items) key =
     (case map_of items key of None \<Rightarrow> Inl KeyError | Some v \<Rightarrow> Inr v)"
| "getitem (PInt n) key = Inl TypeError"
| "getitem (PBytes bs) key = Inl TypeError"
| "getitem (PStr s) key = Inl TypeError"
| "getitem (PList xs) key = Inl TypeError"

text \<open>
  \<^verbatim>\<open>key in v\<close> with a byte-string key: a key of a dictionary, a substring of a byte string, an
  element of a list; a string or an integer on the right raises \<^verbatim>\<open>TypeError\<close>.
\<close>

fun is_substring :: "string \<Rightarrow> string \<Rightarrow> bool" where
  "is_substring key [] = (key = [])"
| "is_substring key (c # cs) = (take (length key) (c # cs) = key \<or> is_substring key cs)"

fun contains :: "string \<Rightarrow> pyval \<Rightarrow> error + bool" where
  "contains key (PDict items) = Inr (map_of items key \<noteq> None)"
| "contains key (PBytes bs) = Inr (is_substring key bs)"
| "contains key (PList xs) = Inr (PBytes key \<in> set xs)"
| "contains key (PStr s) = Inl TypeError"
| "contains key (PInt n) = Inl TypeError"

text \<open>The code points of a string, each as the bytes of its UTF-8 encoding.\<close>

definition is_continuation :: "char \<Rightarrow> bool" where
  "is_continuation c = (128 \<le> (of_char c :: nat) \<and> (of_char c :: nat) < 192)"

fun code_points :: "string \<Rightarrow> string list" where
  "code_points [] = []"
| "code_points (c # cs) =
     (case code_points cs of
        [] \<Rightarrow> [[c]]
      | [] # ks \<Rightarrow> [c] # ks
      | (b # k) # ks \<Rightarrow>
          if is_continuation b then (c # b # k) # ks else [c] # (b # k) # ks)"

text \<open>Iteration (\<^verbatim>\<open>for x in v\<close>): a dictionary yields its keys, a byte string its bytes as integers.\<close>

fun iter_py :: "pyval \<Rightarrow> error + pyval list" where
  "iter_py (PList xs) = Inr xs"
| "iter_py (PDict items) = Inr (map (\<lambda>kv. PBytes (fst kv)) items)"
| "iter_py (PBytes bs) = Inr (map (\<lambda>c. PInt (int (of_char c))) bs)"
| "iter_py (PStr s) = Inr (map PStr (code_points s))"
| "iter_py (PInt n) = Inl TypeError"

text \<open>\<^verbatim>\<open>v[0]\<close>.\<close>

fun index0 :: "pyval \<Rightarrow> error + pyval" where
  "index0 (PList xs) = (case xs of [] \<Rightarrow> Inl IndexError | x # _ \<Rightarrow> Inr x)"
| "index0 (PBytes bs) =
     (case bs of [] \<Rightarrow> Inl IndexError | c # _ \<Rightarrow> Inr (PInt (int (of_char c))))"
| "index0 (PStr s) =
     (case code_points s of [] \<Rightarrow> Inl IndexError | k # _ \<Rightarrow> Inr (PStr k))"
| "index0 (PDict items) = Inl KeyError"
| "index0 (PInt n) = Inl TypeError"

text \<open>
  A slice \<^verbatim>\<open>xs[a:b]\<close> of a sequence: a negative bound counts from the end, and both bounds are
  clamped to the sequence.
\<close>

definition clamp_index :: "int \<Rightarrow> int \<Rightarrow> int" where
  "clamp_index n a = (if a < 0 then max (a + n) 0 else min a n)"

definition py_slice :: "'a list \<Rightarrow> int \<Rightarrow> int \<Rightarrow> 'a list" where
  "py_slice xs a b =
     (let n = int (length xs); lo = clamp_index n a; hi = clamp_index n b
      in take (nat (hi - lo)) (drop (nat lo) xs))"

text \<open>
  \<^verbatim>\<open>v[a:b]\<close> on a value. A dictionary refuses a slice as a key (\<^verbatim>\<open>TypeError\<close>: unhashable; from
  Python 3.12 on a \<^verbatim>\<open>KeyError\<close>, an exception either way).
\<close>

fun slice_py :: "pyval \<Rightarrow> int \<Rightarrow> int \<Rightarrow> error + pyval" where
  "slice_py (PBytes bs) a b = Inr (PBytes (py_slice bs a b))"
| "slice_py (PStr s) a b = Inr (PStr (concat (py_slice (code_points s) a b)))"
| "slice_py (PList xs) a b = Inr (PList (py_slice xs a b))"
| "slice_py (PDict items) a b = Inl TypeError"
| "slice_py (PInt n) a b = Inl TypeError"

text \<open>
  \<^verbatim>\<open>bytes.decode()\<close>, strict UTF-8: the well-formed byte sequences of the Unicode standard
  (no overlong form, no surrogate, nothing above U+10FFFF). The decoded string is represented
  by the same bytes.
\<close>

definition cont :: "nat \<Rightarrow> bool" where
  "cont b = (128 \<le> b \<and> b \<le> 191)"

definition second_of_3 :: "nat \<Rightarrow> nat \<Rightarrow> bool" where
  "second_of_3 a b =
     (if a = 224 then 160 \<le> b \<and> b \<le> 191
      else if a = 237 then 128 \<le> b \<and> b \<le> 159
      else cont b)"

definition second_of_4 :: "nat \<Rightarrow> nat \<Rightarrow> bool" where
  "second_of_4 a b =
     (if a = 240 then 144 \<le> b \<and> b \<le> 191
      else if a = 244 then 128 \<le> b \<and> b \<le> 143
      else cont b)"

fun valid_utf8_codes :: "nat list \<Rightarrow> bool" where
  "valid_utf8_codes [] = True"
| "valid_utf8_codes (a # rest) =
     (if a < 128 then valid_utf8_codes rest
      else if 194 \<le> a \<and> a \<le> 223 then
        (case rest of b # r \<Rightarrow> cont b \<and> valid_utf8_codes r | _ \<Rightarrow> False)
      else if 224 \<le> a \<and> a \<le> 239 then
        (case rest of
           b # c # r \<Rightarrow> second_of_3 a b \<and> cont c \<and> valid_utf8_codes r
         | _ \<Rightarrow> False)
      else if 240 \<le> a \<and> a \<le> 244 then
        (case rest of
           b # c # d # r \<Rightarrow> second_of_4 a b \<and> cont c \<and> cont d \<and> valid_utf8_codes r
         | _ \<Rightarrow> False)
      else False)"

definition valid_utf8 :: "string \<Rightarrow> bool" where
  "valid_utf8 bs = valid_utf8_codes (map of_char bs)"

text \<open>\<^verbatim>\<open>v.decode()\<close>: only a byte string has the method.\<close>

fun decode :: "pyval \<Rightarrow> error + string" where
  "decode (PBytes bs) = (if valid_utf8 bs then Inr bs else Inl UnicodeDecodeError)"
| "decode (PInt n) = Inl AttributeError"
| "decode (PStr s) = Inl AttributeError"
| "decode (PList xs) = Inl AttributeError"
| "decode (PDict items) = Inl AttributeError"

text \<open>\<^verbatim>\<open>[part.decode('utf-8') for part in parts]\<close>, stopping at the first part that raises.\<close>

fun decode_all :: "pyval list \<Rightarrow> error + pyval list" where
  "decode_all [] = Inr []"
| "decode_all (part # parts) =
     (case decode part of
        Inl e \<Rightarrow> Inl e
      | Inr s \<Rightarrow> (case decode_all parts of Inl e \<Rightarrow> Inl e | Inr ss \<Rightarrow> Inr (PStr s # ss)))"

text \<open>\<^verbatim>\<open>'/'.join(parts)\<close>: every item must be a string.\<close>

fun join_strs :: "pyval list \<Rightarrow> error + string" where
  "join_strs [] = Inr []"
| "join_strs [PStr s] = Inr s"
| "join_strs (PStr s # x # xs) =
     (case join_strs (x # xs) of Inl e \<Rightarrow> Inl e | Inr r \<Rightarrow> Inr (s @ ''/'' @ r))"
| "join_strs (v # xs) = Inl TypeError"

definition join_slash :: "pyval \<Rightarrow> error + string" where
  "join_slash parts = ebind (iter_py parts) join_strs"

text \<open>\<^verbatim>\<open>bytes.hex()\<close>.\<close>

definition hex_digit :: "nat \<Rightarrow> char" where
  "hex_digit n = ''0123456789abcdef'' ! n"

definition hex :: "string \<Rightarrow> string" where
  "hex bs =
     concat (map (\<lambda>c. [hex_digit ((of_char c :: nat) div 16), hex_digit ((of_char c :: nat) mod 16)]) bs)"

section \<open>The torrent parser (services/torrent_service.py, app.py)\<close>

text \<open>
  \<^verbatim>\<open>sum(file[b'length'] for file in files_info)\<close>: the sum starts at the integer 0, and adding
  anything but an integer to it raises \<^verbatim>\<open>TypeError\<close>.
\<close>

fun sum_lengths :: "pyval list \<Rightarrow> int \<Rightarrow> error + int" where
  "sum_lengths [] acc = Inr acc"
| "sum_lengths (file # rest) acc =
     (case getitem file ''length'' of
        Inl e \<Rightarrow> Inl e
      | Inr (PInt n) \<Rightarrow> sum_lengths rest (acc + n)
      | Inr v \<Rightarrow> Inl TypeError)"

text \<open>\<^verbatim>\<open>info_dict[b'name'].decode() if b'name' in info_dict else fallback\<close>.\<close>

definition name_or :: "pyval \<Rightarrow> string \<Rightarrow> error + string" where
  "name_or info_dict fallback =
     ebind (contains ''name'' info_dict) (\<lambda>has_name.
       if has_name then ebind (getitem info_dict ''name'') decode else Inr fallback)"

text \<open>
  A finite float: \<open>Double neg m e\<close> is the double of significand \<open>m\<close> and exponent \<open>e\<close>, that is
  \<open>m * 2 ^ e\<close>, negated when \<open>neg\<close> is set. \<open>bit_length\<close> is \<^verbatim>\<open>int.bit_length\<close>.
\<close>

datatype double = Double bool nat int

fun bit_length :: "nat \<Rightarrow> nat" where
  "bit_length n = (if n = 0 then 0 else Suc (bit_length (n div 2)))"

declare bit_length.simps [simp del]

text \<open>The integer nearest to \<open>n / d\<close>, the even one of the two when \<open>n / d\<close> is half way.\<close>

definition round_half_even :: "nat \<Rightarrow> nat \<Rightarrow> nat" where
  "round_half_even n d =
     (let q = n div d; r = n mod d in
      if 2 * r < d then q
      else if d < 2 * r then q + 1
      else if even q then q else q + 1)"

text \<open>
  \<^verbatim>\<open>a / b\<close> on two integers: \<^verbatim>\<open>ZeroDivisionError\<close> for a zero divisor, otherwise the double nearest
  to the exact quotient (ties to the even significand), and \<^verbatim>\<open>OverflowError\<close> when that is
  \<open>2 ^ 1024\<close> or more. The exponent \<open>e\<close> is the one that leaves 53 bits to the significand, and
  not less than \<open>- 1074\<close>, the exponent of the subnormal doubles.
\<close>

definition true_divide :: "int \<Rightarrow> int \<Rightarrow> error + double" where
  "true_divide a b =
     (if b = 0 then Inl ZeroDivisionError
      else
        (let neg = ((a < 0) \<noteq> (b < 0)); n = nat \<bar>a\<bar>; d = nat \<bar>b\<bar> in
         if n = 0 then Inr (Double neg 0 0)
         else
           (let k = int (bit_length n) - int (bit_length d);
                above = (if 0 \<le> k then d * 2 ^ nat k \<le> n else d \<le> n * 2 ^ nat (- k));
                e = max (if above then k - 52 else k - 53) (- 1074);
                m = (if 0 \<le> e then round_half_even n (d * 2 ^ nat e)
                     else round_half_even (n * 2 ^ nat (- e)) d)
            in if 971 < e \<or> (e = 971 \<and> m = 2 ^ 53) then Inl OverflowError
               else Inr (Double neg m e))))"

text \<open>\<^verbatim>\<open>math.ceil(x)\<close> on a finite float: the least integer that is not below it.\<close>

fun math_ceil :: "double \<Rightarrow> int" where
  "math_ceil (Double neg m e) =
     (if 0 \<le> e then (if neg then - int (m * 2 ^ nat e) else int (m * 2 ^ nat e))
      else if neg then - int (m div 2 ^ nat (- e))
      else - ((- int m) div 2 ^ nat (- e)))"

text \<open>
  \<^verbatim>\<open>math.ceil(total_size / piece_length)\<close>. The quotient of two integers is a float, so the
  ceiling is that of the double nearest to the exact quotient. Any operand that is not an
  integer raises \<^verbatim>\<open>TypeError\<close>. The function returns the two integers with the number of pieces.
\<close>

fun num_pieces_of :: "pyval \<Rightarrow> pyval \<Rightarrow> error + (int \<times> int \<times> int)" where
  "num_pieces_of (PInt total_sz) (PInt piece_length) =
     ebind (true_divide total_sz piece_length) (\<lambda>quotient.
       Inr (total_sz, piece_length, math_ceil quotient))"
| "num_pieces_of total_sz piece_length = Inl TypeError"

text \<open>
  The loop \<^verbatim>\<open>for i in range(num_pieces)\<close> that builds the \<^verbatim>\<open>Piece\<close> objects, over the list of
  the indices still to come.
\<close>

fun make_pieces :: "pyval \<Rightarrow> int \<Rightarrow> int \<Rightarrow> nat list \<Rightarrow> error + Piece list" where
  "make_pieces pieces_hash piece_length total_sz [] = Inr []"
| "make_pieces pieces_hash piece_length total_sz (i # rest) =
     (case slice_py pieces_hash (int i * 20) (int i * 20 + 20) of
        Inl e \<Rightarrow> Inl e
      | Inr piece_hash \<Rightarrow>
          (case make_pieces pieces_hash piece_length total_sz rest of
             Inl e \<Rightarrow> Inl e
           | Inr ps \<Rightarrow>
               Inr (\<lparr>index = int i,
                     size_p = min piece_length (total_sz - int i * piece_length),
                     hash = piece_hash, data = None, downloaded_p = False\<rparr> # ps)))"

text \<open>
  One turn of the loop over \<^verbatim>\<open>files_info\<close> (lines 70-82 of torrent_service.py, and the body of
  \<^verbatim>\<open>Download.add_files\<close>, which is the same text): the \<^verbatim>\<open>TorrentFile\<close> built at the running
  offset. The length is added to the integer offset, so it must be an integer.
\<close>

definition file_entry :: "pyval \<Rightarrow> int \<Rightarrow> error + TorrentFile" where
  "file_entry file_info off =
     ebind (getitem file_info ''path'') (\<lambda>path_parts.
     ebind (index0 path_parts) (\<lambda>first.
     ebind (case first of
              PBytes b \<Rightarrow> ebind (iter_py path_parts) (\<lambda>parts. ebind (decode_all parts) (\<lambda>ss. Inr (PList ss)))
            | _ \<Rightarrow> Inr path_parts) (\<lambda>path_parts'.
     ebind (join_slash path_parts') (\<lambda>file_path.
     ebind (getitem file_info ''length'') (\<lambda>len.
       case len of
         PInt n \<Rightarrow> Inr \<lparr>path = file_path, length_f = n, offset = off,
                         downloaded_f = False, selected = True\<rparr>
       | _ \<Rightarrow> Inl TypeError)))))"

fun files_loop :: "pyval list \<Rightarrow> int \<Rightarrow> error + TorrentFile list" where
  "files_loop [] off = Inr []"
| "files_loop (file_info # rest) off =
     (case file_entry file_info off of
        Inl e \<Rightarrow> Inl e
      | Inr f \<Rightarrow>
          (case files_loop rest (off + length_f f) of
             Inl e \<Rightarrow> Inl e
           | Inr fs \<Rightarrow> Inr (f # fs)))"

text \<open>
  The part of \<^verbatim>\<open>parse_torrent\<close> that reads the decoded metadata, shared word for word by
  \<^verbatim>\<open>TorrentService.parse_torrent\<close> (lines 36-64) and app.py (lines 848-877): piece length, piece
  hashes, the total size and the name of a single-file or multi-file torrent, and the pieces.
  \<open>stem\<close> is the name of the torrent file without its suffix. The result is the name, the
  total size, the piece length, the pieces, the multi-file flag and \<^verbatim>\<open>files_info\<close> (the empty
  list for a single file).
\<close>

definition read_info ::
  "string \<Rightarrow> pyval \<Rightarrow> error + (string \<times> int \<times> int \<times> Piece list \<times> bool \<times> pyval)" where
  "read_info stem info_dict =
     ebind (getitem info_dict ''piece length'') (\<lambda>piece_length.
     ebind (getitem info_dict ''pieces'') (\<lambda>pieces_hash.
     ebind (contains ''files'' info_dict) (\<lambda>is_multi.
     ebind (if is_multi then
              ebind (getitem info_dict ''files'') (\<lambda>files_info.
              ebind (iter_py files_info) (\<lambda>fs.
              ebind (sum_lengths fs 0) (\<lambda>total_sz.
              ebind (name_or info_dict ''multi_file_torrent'') (\<lambda>nm.
                Inr (files_info, PInt total_sz, nm)))))
            else
              ebind (getitem info_dict ''length'') (\<lambda>total_sz.
              ebind (name_or info_dict stem) (\<lambda>nm.
                Inr (PList [], total_sz, nm)))) (\<lambda>(files_info, total_size, nm).
     ebind (num_pieces_of total_size piece_length) (\<lambda>(total_sz, pl, num_pieces).
     ebind (make_pieces pieces_hash pl total_sz [0 ..< nat num_pieces]) (\<lambda>ps.
       Inr (nm, total_sz, pl, ps, is_multi, files_info)))))))"

text \<open>
  \<^verbatim>\<open>TorrentService.parse_torrent\<close>, on the value \<^verbatim>\<open>bencodepy.decode\<close> returned for the file.
  \<open>digest\<close> stands for \<^verbatim>\<open>hashlib.sha1(bencodepy.encode(v)).digest()\<close>, two library functions.
  \<open>parse_torrent_info\<close> is the body of the \<^verbatim>\<open>try\<close>; the method returns \<^verbatim>\<open>None\<close> for any exception.
\<close>

definition parse_torrent_info ::
  "(pyval \<Rightarrow> string) \<Rightarrow> string \<Rightarrow> pyval \<Rightarrow> error + TorrentInfo" where
  "parse_torrent_info digest stem torrent_data =
     ebind (getitem torrent_data ''info'') (\<lambda>info_dict.
     let info_hash = digest info_dict in
     ebind (read_info stem info_dict) (\<lambda>(nm, total_sz, pl, ps, is_multi, files_info).
     ebind (if is_multi then ebind (iter_py files_info) (\<lambda>fs. files_loop fs 0) else Inr [])
       (\<lambda>fls.
       Inr \<lparr>name_ti = nm, total_size_ti = total_sz, piece_length_ti = pl, pieces_ti = ps,
            files_ti = fls, is_multi_file_ti = is_multi, info_hash_ti = info_hash\<rparr>)))"

definition TorrentService_parse_torrent ::
  "(pyval \<Rightarrow> string) \<Rightarrow> string \<Rightarrow> pyval \<Rightarrow> TorrentInfo option" where
  "TorrentService_parse_torrent digest stem torrent_data =
     (case parse_torrent_info digest stem torrent_data of
        Inl e \<Rightarrow> None
      | Inr torrent_info \<Rightarrow> Some torrent_info)"

definition get_torrent_id :: "TorrentInfo \<Rightarrow> string" where
  "get_torrent_id torrent_info = take 16 (hex (info_hash_ti torrent_info))"

text \<open>
  \<^verbatim>\<open>TorrentService.validate_torrent_file\<close>, on the decoded value: the body of the \<^verbatim>\<open>try\<close>, and
  the method, which returns \<^verbatim>\<open>False\<close> for any exception.
\<close>

definition validate_body :: "pyval \<Rightarrow> error + bool" where
  "validate_body torrent_data =
     ebind (contains ''info'' torrent_data) (\<lambda>has_info.
     if \<not> has_info then Inr False
     else
       ebind (getitem torrent_data ''info'') (\<lambda>info.
       ebind (contains ''piece length'' info) (\<lambda>has_piece_length.
       ebind (if has_piece_length then contains ''pieces'' info else Inr False) (\<lambda>has_both.
       if \<not> has_both then Inr False
       else
         ebind (contains ''name'' info) (\<lambda>has_name.
         if \<not> has_name then Inr False
         else
           ebind (contains ''length'' info) (\<lambda>has_length.
           ebind (if has_length then Inr True else contains ''files'' info) (\<lambda>has_either.
           Inr has_either)))))))"

definition validate_torrent_file :: "pyval \<Rightarrow> bool" where
  "validate_torrent_file torrent_data =
     (case validate_body torrent_data of Inl e \<Rightarrow> False | Inr ok \<Rightarrow> ok)"

text \<open>
  \<^verbatim>\<open>Download.add_files\<close> (models/download.py lines 181-196, app.py lines 252-267): the loop
  above from offset 0, its files appended to \<^verbatim>\<open>self.files\<close>. When a turn raises, the exception
  leaves the method and both callers drop the download, so the error carries no state.
\<close>

definition add_files :: "pyval \<Rightarrow> Download \<Rightarrow> error + Download" where
  "add_files files_info download =
     ebind (iter_py files_info) (\<lambda>fs.
     ebind (files_loop fs 0) (\<lambda>new_files.
       Inr (download\<lparr>files := files download @ new_files\<rparr>)))"

text \<open>
  The assignment \<^verbatim>\<open>d[key] = v\<close> on a dictionary, used below to state properties of metadata that
  differ in one entry only. \<open>with_pieces\<close> is the metadata with \<^verbatim>\<open>info[b'pieces']\<close> set to a byte
  string.
\<close>

fun set_item :: "string \<Rightarrow> pyval \<Rightarrow> pyval \<Rightarrow> pyval" where
  "set_item key v (PDict items) = PDict ((key, v) # filter (\<lambda>kv. fst kv \<noteq> key) items)"
| "set_item key v d = d"

definition with_pieces :: "string \<Rightarrow> pyval \<Rightarrow> pyval" where
  "with_pieces bs torrent_data =
     (case getitem torrent_data ''info'' of
        Inl e \<Rightarrow> torrent_data
      | Inr info \<Rightarrow> set_item ''info'' (set_item ''pieces'' (PBytes bs) info) torrent_data)"

text \<open>Example metadata: the single-file scenario of the specification, and a multi-file torrent.\<close>

definition single_file_torrent :: "string \<Rightarrow> int \<Rightarrow> int \<Rightarrow> string \<Rightarrow> pyval" where
  "single_file_torrent nm len pl bs =
     PDict [(''info'', PDict [(''length'', PInt len), (''name'', PBytes nm),
                              (''piece length'', PInt pl), (''pieces'', PBytes bs)])]"

definition example_single :: pyval where
  "example_single = single_file_torrent ''a.bin'' 49152 16384 (replicate 60 (CHR ''x''))"

definition example_multi :: pyval where
  "example_multi =
     PDict [(''info'', PDict
       [(''files'', PList
           [PDict [(''length'', PInt 7), (''path'', PList [PBytes ''d'', PBytes ''a.txt''])],
            PDict [(''length'', PInt 5), (''path'', PList [PBytes ''b.txt''])]]),
        (''name'', PBytes ''dir''),
        (''piece length'', PInt 10),
        (''pieces'', PBytes (replicate 40 (CHR ''x'')))])]"

definition example_digest :: "pyval \<Rightarrow> string" where
  "example_digest v = ''hhhhhhhhhhhhhhhhhhhh''"

definition short_pieces_torrent :: pyval where
  "short_pieces_torrent = single_file_torrent ''a.bin'' 49152 16384 ''abcde''"

definition big_torrent :: pyval where
  "big_torrent =
     single_file_torrent ''a.bin'' 100000000000000001 100000000000000000 (replicate 40 (CHR ''x''))"

section \<open>Files on disk and the persistence of a download\<close>

text \<open>
  The content of a per-download state file (\<^verbatim>\<open>state.json\<close>), as \<^verbatim>\<open>save_state\<close> writes it. The JSON
  array of piece indices is read back through \<^verbatim>\<open>set(...)\<close> only, so it is kept as the set it
  lists; the time stamp, which nothing reads, is left out.
\<close>

record saved_state =
  downloaded_pieces_s :: "int set"
  downloaded_size_s :: int
  completed_s :: bool
  file_selections_s :: "string \<rightharpoonup> bool"

text \<open>An entry of the global index file, as \<^verbatim>\<open>save_downloads_state\<close> writes it.\<close>

record index_entry =
  name_ie :: string
  total_size_ie :: int
  pieces_ie :: "Piece list"
  download_dir_ie :: string
  state_file_ie :: string
  settings_ie :: DownloadSettings
  is_multi_file_ie :: bool
  files_ie :: "TorrentFile list option"

text \<open>
  The file system: the state files and the other files by path, the global index, and the
  paths that cannot be created or opened for writing (a full disk, a missing permission).
  Directories are not modelled; creating a directory fails exactly on such a path.
\<close>

record filesystem =
  state_files :: "string \<rightharpoonup> saved_state"
  disk :: "string \<rightharpoonup> string"
  index_file :: "(string \<times> index_entry) list option"
  unwritable :: "string set"

text \<open>\<^verbatim>\<open>download_dir / torrent_id\<close> and \<^verbatim>\<open>download_folder / "state.json"\<close>; paths are joined by a slash.\<close>

definition path_join :: "string \<Rightarrow> string \<Rightarrow> string" where
  "path_join dir p = dir @ ''/'' @ p"

definition download_folder :: "Download \<Rightarrow> string" where
  "download_folder d = path_join (download_dir d) (torrent_id d)"

definition state_file :: "Download \<Rightarrow> string" where
  "state_file d = path_join (download_folder d) ''state.json''"

text \<open>\<^verbatim>\<open>{file.path: file.selected for file in self.files}\<close>: a later file overwrites an earlier path.\<close>

definition file_selections_of :: "TorrentFile list \<Rightarrow> (string \<rightharpoonup> bool)" where
  "file_selections_of fls = fold (\<lambda>f m. m(path f \<mapsto> selected f)) fls Map.empty"

text \<open>
  \<^verbatim>\<open>Download.save_state\<close> (models/download.py lines 239-253, app.py lines 310-324): the file is
  overwritten; when it cannot be written the error is logged and nothing changes.
\<close>

definition save_state :: "Download \<Rightarrow> filesystem \<Rightarrow> filesystem" where
  "save_state d fs =
     (if state_file d \<in> unwritable fs then fs
      else fs\<lparr>state_files := (state_files fs)(state_file d \<mapsto>
             \<lparr>downloaded_pieces_s = downloaded_pieces d,
              downloaded_size_s = downloaded_size d,
              completed_s = completed d,
              file_selections_s = file_selections_of (files d)\<rparr>)\<rparr>)"

text \<open>
  \<^verbatim>\<open>Download.load_state\<close> (models/download.py lines 218-237, app.py lines 289-308). Without a state
  file the download is left as it is. The selections are applied to the files the download has
  when the method runs.
\<close>

definition load_state :: "filesystem \<Rightarrow> Download \<Rightarrow> Download" where
  "load_state fs d =
     (case state_files fs (state_file d) of
        None \<Rightarrow> d
      | Some st \<Rightarrow>
          d\<lparr>downloaded_pieces := downloaded_pieces_s st,
            downloaded_size := downloaded_size_s st,
            completed := completed_s st,
            files := map (\<lambda>f. case file_selections_s st (path f) of
                                None \<Rightarrow> f
                              | Some b \<Rightarrow> f\<lparr>selected := b\<rparr>) (files d),
            download_progress :=
              (if pieces d \<noteq> []
               then real (card (downloaded_pieces_s st)) / real (length (pieces d)) * 100
               else 0)\<rparr>)"

text \<open>
  The constructor \<^verbatim>\<open>Download.__init__\<close> (models/download.py lines 144-179, app.py lines 215-250):
  the fields at their defaults, no files, the folder created, and then \<^verbatim>\<open>load_state\<close>.
\<close>

definition new_Download ::
  "string \<Rightarrow> string \<Rightarrow> int \<Rightarrow> Piece list \<Rightarrow> string \<Rightarrow> DownloadSettings \<Rightarrow> bool \<Rightarrow> filesystem
     \<Rightarrow> error + Download" where
  "new_Download tid nm total_sz ps dir stg multi fs =
     (let d = \<lparr>torrent_id = tid, name = nm, total_size = total_sz, pieces = ps,
                download_dir = dir, settings = stg, is_multi_file = multi, files = [],
                downloading = False, paused = False, download_progress = 0,
                downloaded_size = 0, completed = False, downloaded_pieces = {},
                state = StoppedState\<rparr>
      in if download_folder d \<in> unwritable fs then Inl OSError else Inr (load_state fs d))"

text \<open>
  \<^verbatim>\<open>Download.update_file_selection\<close>: for every item of the dictionary, the first file with that
  path gets the flag; then the state is saved.
\<close>

fun select_first :: "string \<Rightarrow> bool \<Rightarrow> TorrentFile list \<Rightarrow> TorrentFile list" where
  "select_first p b [] = []"
| "select_first p b (f # fs) =
     (if path f = p then f\<lparr>selected := b\<rparr> # fs else f # select_first p b fs)"

definition update_file_selection ::
  "(string \<times> bool) list \<Rightarrow> Download \<Rightarrow> filesystem \<Rightarrow> Download \<times> filesystem \<times> bool" where
  "update_file_selection file_selections d fs =
     (let d' = d\<lparr>files := fold (\<lambda>item. select_first (fst item) (snd item)) file_selections (files d)\<rparr>
      in (d', save_state d' fs, True))"

section \<open>Starting, pausing, resuming and stopping a download\<close>

text \<open>The methods of \<^verbatim>\<open>Download\<close> in models/download.py (lines 278-303), over the state classes.\<close>

definition start_download :: "Download \<Rightarrow> Download \<times> bool" where
  "start_download d = (if completed d then (d, True) else state_start (state d) d)"

definition pause_download :: "Download \<Rightarrow> Download \<times> bool" where
  "pause_download d = (if downloading d then state_pause (state d) d else (d, False))"

definition resume_download :: "Download \<Rightarrow> Download \<times> bool" where
  "resume_download d =
     (if downloading d \<and> paused d then state_resume (state d) d else (d, False))"

definition stop_download :: "Download \<Rightarrow> filesystem \<Rightarrow> Download \<times> filesystem \<times> bool" where
  "stop_download d fs =
     (let r = state_stop (state d) d in (fst r, save_state (fst r) fs, snd r))"

text \<open>
  The tasks a method hands to the event loop. The methods of \<^verbatim>\<open>Download\<close> in app.py (lines
  349-408) have no state classes; \<^verbatim>\<open>start_download\<close> creates the \<^verbatim>\<open>DownloadProcess\<close>, whose task
  changes nothing of the download, and the task of the scheduler \<^verbatim>\<open>_async_download_worker\<close>.
\<close>

datatype task = DownloadProcess_run | Async_download_worker | Download_worker

definition app_start_download :: "Download \<Rightarrow> Download \<times> task list \<times> bool" where
  "app_start_download d =
     (if completed d then (d, [], True)
      else (d\<lparr>downloading := True, paused := False\<rparr>,
            [DownloadProcess_run, Async_download_worker], True))"

definition app_pause_download :: "Download \<Rightarrow> Download \<times> bool" where
  "app_pause_download d = (if downloading d then (d\<lparr>paused := True\<rparr>, True) else (d, False))"

definition app_resume_download :: "Download \<Rightarrow> Download \<times> bool" where
  "app_resume_download d =
     (if downloading d \<and> paused d then (d\<lparr>paused := False\<rparr>, True) else (d, False))"

definition app_stop_download :: "Download \<Rightarrow> filesystem \<Rightarrow> Download \<times> filesystem \<times> bool" where
  "app_stop_download d fs =
     (let d' = d\<lparr>downloading := False, paused := False\<rparr> in (d', save_state d' fs, True))"

text \<open>
  \<^verbatim>\<open>DownloadWorker\<close> (core/download_worker.py): the worker holds the download it works on and
  three flags of its own.
\<close>

record DownloadWorker =
  download_w :: Download
  running :: bool
  paused_w :: bool
  stopped :: bool

definition new_DownloadWorker :: "Download \<Rightarrow> DownloadWorker" where
  "new_DownloadWorker d = \<lparr>download_w = d, running = False, paused_w = False, stopped = False\<rparr>"

definition worker_start :: "DownloadWorker \<Rightarrow> DownloadWorker \<times> task list \<times> bool" where
  "worker_start w =
     (if completed (download_w w) then (w, [], True)
      else (w\<lparr>running := True, paused_w := False, stopped := False\<rparr>, [Download_worker], True))"

definition worker_pause :: "DownloadWorker \<Rightarrow> DownloadWorker \<times> bool" where
  "worker_pause w = (w\<lparr>paused_w := True\<rparr>, True)"

definition worker_resume :: "DownloadWorker \<Rightarrow> DownloadWorker \<times> bool" where
  "worker_resume w = (w\<lparr>paused_w := False\<rparr>, True)"

definition worker_stop :: "DownloadWorker \<Rightarrow> DownloadWorker \<times> bool" where
  "worker_stop w = (w\<lparr>stopped := True, running := False, paused_w := False\<rparr>, True)"

section \<open>The scheduler of app.py (\<^verbatim>\<open>Download._async_download_worker\<close>, lines 410-520)\<close>

text \<open>
  A run of the scheduler is modelled on its own: nothing else changes the download while it
  runs. The loop \<^verbatim>\<open>while self.paused and self.downloading: await asyncio.sleep(...)\<close> then
  either is passed at once or never ends; not returning is the value \<open>None\<close>.
\<close>

partial_function (option) wait_while_paused :: "Download \<Rightarrow> unit option" where
  "wait_while_paused d =
     (if paused d \<and> downloading d then wait_while_paused d else Some ())"

declare wait_while_paused.simps [code]

definition BATCH_SIZE_app :: nat where
  "BATCH_SIZE_app = 5"

text \<open>The bytes to download (lines 414-417): the selected files of a multi-file download.\<close>

definition total_size_to_download :: "Download \<Rightarrow> int" where
  "total_size_to_download d =
     (if is_multi_file d then sum_list (map length_f (filter selected (files d)))
      else total_size d)"

text \<open>
  Lines 426-429: the byte source, padded with zero bytes up to the sum of the piece sizes.
  \<open>source\<close> is what \<^verbatim>\<open>_extract_file_data_from_torrent\<close> returned, bytes drawn at random after a
  header.
\<close>

definition padded :: "string \<Rightarrow> int \<Rightarrow> string" where
  "padded bytes n =
     (if int (length bytes) < n then bytes @ replicate (nat (n - int (length bytes))) (CHR 0x00)
      else bytes)"

definition pad_file_data :: "Download \<Rightarrow> string \<Rightarrow> string" where
  "pad_file_data d source = padded source (sum_list (map size_p (pieces d)))"

text \<open>
  Lines 467-491, the piece at position \<open>i\<close> being recorded: its bytes are cut from the byte
  source and padded, the piece is marked, and under the lock the index joins
  \<^verbatim>\<open>downloaded_pieces\<close>, the local counter \<^verbatim>\<open>downloaded_size\<close> grows by the number of bytes and is
  stored in the download, and the progress is set when the target is positive. The state is
  the download with the local counter.
\<close>

definition record_piece :: "string \<Rightarrow> int \<Rightarrow> nat \<Rightarrow> Download \<times> int \<Rightarrow> Download \<times> int" where
  "record_piece file_data target i s =
     (let d = fst s;
          piece = pieces d ! i;
          piece_start = sum_list (map size_p (take i (pieces d)));
          piece_end = piece_start + size_p piece;
          piece_data = padded (py_slice file_data piece_start piece_end) (size_p piece);
          downloaded_size' = snd s + int (length piece_data)
      in (d\<lparr>pieces := (pieces d)[i := piece\<lparr>data := Some piece_data, downloaded_p := True\<rparr>],
            downloaded_pieces := insert (int i) (downloaded_pieces d),
            downloaded_size := downloaded_size',
            download_progress :=
              (if 0 < target then real_of_int downloaded_size' / real_of_int target * 100
               else download_progress d)\<rparr>,
          downloaded_size'))"

text \<open>
  The inner loop \<^verbatim>\<open>for i in range(batch_start, batch_end)\<close> (lines 450-495), over the positions
  still to come: a position in \<^verbatim>\<open>downloaded_pieces\<close> is skipped, and a download that is no longer
  downloading ends the loop.
\<close>

fun process_batch ::
  "string \<Rightarrow> int \<Rightarrow> nat list \<Rightarrow> Download \<times> int \<Rightarrow> (Download \<times> int) option" where
  "process_batch file_data target [] s = Some s"
| "process_batch file_data target (i # rest) s =
     (if int i \<in> downloaded_pieces (fst s) then process_batch file_data target rest s
      else
        (case wait_while_paused (fst s) of
           None \<Rightarrow> None
         | Some u \<Rightarrow>
             if \<not> downloading (fst s) then Some s
             else process_batch file_data target rest (record_piece file_data target i s)))"

text \<open>
  The outer loop \<^verbatim>\<open>for batch_start in range(0, total_pieces, Config.BATCH_SIZE)\<close> (lines
  435-501), over the batch starts still to come; the state is saved after each batch.
\<close>

definition batch_starts :: "nat \<Rightarrow> nat \<Rightarrow> nat list" where
  "batch_starts n b = map (\<lambda>k. k * b) [0 ..< (n + b - 1) div b]"

fun process_batches ::
  "string \<Rightarrow> int \<Rightarrow> nat list \<Rightarrow> (Download \<times> int) \<times> filesystem
     \<Rightarrow> ((Download \<times> int) \<times> filesystem) option" where
  "process_batches file_data target [] sf = Some sf"
| "process_batches file_data target (batch_start # rest) sf =
     (let s = fst sf; d = fst s in
      if \<not> downloading d then Some sf
      else
        (case wait_while_paused d of
           None \<Rightarrow> None
         | Some u \<Rightarrow>
             if \<not> downloading d then Some sf
             else
               (let batch_end = min (batch_start + BATCH_SIZE_app) (length (pieces d)) in
                case process_batch file_data target [batch_start ..< batch_end] s of
                  None \<Rightarrow> None
                | Some s' \<Rightarrow>
                    process_batches file_data target rest (s', save_state (fst s') (snd sf)))))"

text \<open>
  \<^verbatim>\<open>Download._write_files_with_real_data\<close> (lines 691-719). One \<^verbatim>\<open>try\<close> encloses the loop over
  the files: a file that cannot be written ends the loop with the error logged. The result is
  the files, the written ones flagged, and the file system.
\<close>

fun write_selected ::
  "string \<Rightarrow> string \<Rightarrow> int \<Rightarrow> TorrentFile list \<Rightarrow> filesystem \<Rightarrow> TorrentFile list \<times> filesystem" where
  "write_selected folder file_data data_offset [] fs = ([], fs)"
| "write_selected folder file_data data_offset (f # rest) fs =
     (if selected f then
        (if path_join folder (path f) \<in> unwritable fs then (f # rest, fs)
         else
           (let slice = py_slice file_data data_offset (data_offset + length_f f);
                fs' = fs\<lparr>disk := (disk fs)(path_join folder (path f) \<mapsto> slice)\<rparr>;
                r = write_selected folder file_data (data_offset + length_f f) rest fs'
            in (f\<lparr>downloaded_f := True\<rparr> # fst r, snd r)))
      else
        (let r = write_selected folder file_data data_offset rest fs in (f # fst r, snd r)))"

definition write_files_with_real_data ::
  "string \<Rightarrow> Download \<Rightarrow> filesystem \<Rightarrow> Download \<times> filesystem" where
  "write_files_with_real_data file_data d fs =
     (if is_multi_file d then
        (let r = write_selected (download_folder d) file_data 0 (files d) fs
         in (d\<lparr>files := fst r\<rparr>, snd r))
      else if path_join (download_folder d) (name d) \<in> unwritable fs then (d, fs)
      else (d, fs\<lparr>disk := (disk fs)(path_join (download_folder d) (name d) \<mapsto> file_data)\<rparr>))"

text \<open>
  The whole scheduler. \<open>source\<close> is the byte source of this run. After the loops, lines
  503-514 write the files and set \<^verbatim>\<open>completed\<close> when every piece is in \<^verbatim>\<open>downloaded_pieces\<close>; the
  \<^verbatim>\<open>finally\<close> clause clears \<^verbatim>\<open>downloading\<close> and saves the state. Nothing modelled here raises
  inside the \<^verbatim>\<open>try\<close>.
\<close>

definition async_download_worker ::
  "string \<Rightarrow> Download \<Rightarrow> filesystem \<Rightarrow> (Download \<times> filesystem) option" where
  "async_download_worker source d fs =
     (let target = total_size_to_download d;
          file_data = pad_file_data d source;
          total_pieces = length (pieces d)
      in case process_batches file_data target (batch_starts total_pieces BATCH_SIZE_app)
                ((d, 0), fs) of
           None \<Rightarrow> None
         | Some sf \<Rightarrow>
             (let d1 = fst (fst sf); fs1 = snd sf;
                  r = (if card (downloaded_pieces d1) = total_pieces then
                         (let w = write_files_with_real_data file_data d1 fs1;
                              d2 = (fst w)\<lparr>completed := True\<rparr>;
                              fs2 = save_state d2 (snd w)
                          in (if auto_stop (settings d2) then d2\<lparr>downloading := False\<rparr> else d2,
                              fs2))
                       else (d1, fs1));
                  d3 = (fst r)\<lparr>downloading := False\<rparr>
              in Some (d3, save_state d3 (snd r))))"

section \<open>The scheduler of core/download_worker.py (\<^verbatim>\<open>DownloadWorker._download_worker\<close>)\<close>

partial_function (option) wait_while_worker_paused :: "DownloadWorker \<Rightarrow> unit option" where
  "wait_while_worker_paused w =
     (if paused_w w \<and> \<not> stopped w then wait_while_worker_paused w else Some ())"

declare wait_while_worker_paused.simps [code]

definition BATCH_SIZE :: nat where
  "BATCH_SIZE = 20"

text \<open>\<^verbatim>\<open>_download_piece\<close> (lines 122-143) on the piece at position \<open>k\<close> of the download.\<close>

definition download_piece :: "nat \<Rightarrow> Download \<Rightarrow> Download" where
  "download_piece k d =
     (let piece = pieces d ! k
      in d\<lparr>pieces := (pieces d)[k := piece\<lparr>downloaded_p := True\<rparr>],
           downloaded_size := downloaded_size d + size_p piece\<rparr>)"

text \<open>
  Lines 94-100: the piece is downloaded, the local counter \<^verbatim>\<open>downloaded_count\<close> grows by one, the
  index of the piece joins \<^verbatim>\<open>downloaded_pieces\<close>, and the progress is the counter over the number
  of pieces. The state is the worker with the counter.
\<close>

definition worker_piece :: "nat \<Rightarrow> DownloadWorker \<times> nat \<Rightarrow> DownloadWorker \<times> nat" where
  "worker_piece k s =
     (let w = fst s;
          total_pieces = length (pieces (download_w w));
          d = download_piece k (download_w w);
          downloaded_count = snd s + 1
      in (w\<lparr>download_w :=
              d\<lparr>downloaded_pieces := insert (index (pieces d ! k)) (downloaded_pieces d),
                download_progress := real downloaded_count / real total_pieces * 100\<rparr>\<rparr>,
          downloaded_count))"

text \<open>The inner loop \<^verbatim>\<open>for piece in batch_pieces\<close> (lines 83-107), over the positions still to come.\<close>

fun worker_batch :: "nat list \<Rightarrow> DownloadWorker \<times> nat \<Rightarrow> (DownloadWorker \<times> nat) option" where
  "worker_batch [] s = Some s"
| "worker_batch (k # rest) s =
     (if stopped (fst s) then Some s
      else
        (case wait_while_worker_paused (fst s) of
           None \<Rightarrow> None
         | Some u \<Rightarrow>
             if stopped (fst s) then Some s
             else worker_batch rest (worker_piece k s)))"

text \<open>
  The outer loop \<^verbatim>\<open>for i in range(0, total_pieces, batch_size)\<close> (lines 75-111); the state is
  saved after a batch when the counter is a multiple of five batch sizes.
\<close>

fun worker_batches ::
  "nat list \<Rightarrow> (DownloadWorker \<times> nat) \<times> filesystem
     \<Rightarrow> ((DownloadWorker \<times> nat) \<times> filesystem) option" where
  "worker_batches [] sf = Some sf"
| "worker_batches (i # rest) sf =
     (let s = fst sf; w = fst s in
      if stopped w then Some sf
      else
        (let batch_end = min (i + BATCH_SIZE) (length (pieces (download_w w))) in
         case worker_batch [i ..< batch_end] s of
           None \<Rightarrow> None
         | Some s' \<Rightarrow>
             worker_batches rest
               (s', if snd s' mod (BATCH_SIZE * 5) = 0
                    then save_state (download_w (fst s')) (snd sf) else snd sf)))"

text \<open>
  \<^verbatim>\<open>FileService.write_files\<close> (services/file_service.py lines 250-278), on the paths and lengths
  it is given. \<open>content\<close> stands for \<^verbatim>\<open>_generate_realistic_file_content\<close>, whose bytes are drawn at
  random. One \<^verbatim>\<open>try\<close> encloses the loop: the first file that cannot be written ends it, and the
  method returns \<^verbatim>\<open>False\<close>.
\<close>

fun write_loop ::
  "(string \<Rightarrow> int \<Rightarrow> string) \<Rightarrow> string \<Rightarrow> (string \<times> int) list \<Rightarrow> filesystem \<Rightarrow> filesystem \<times> bool" where
  "write_loop content folder [] fs = (fs, True)"
| "write_loop content folder (file_info # rest) fs =
     (if path_join folder (fst file_info) \<in> unwritable fs then (fs, False)
      else write_loop content folder rest
             (fs\<lparr>disk := (disk fs)(path_join folder (fst file_info) \<mapsto>
                     content (fst file_info) (snd file_info))\<rparr>))"

definition write_files ::
  "(string \<Rightarrow> int \<Rightarrow> string) \<Rightarrow> string \<Rightarrow> (string \<times> int) list \<Rightarrow> filesystem \<Rightarrow> filesystem \<times> bool" where
  "write_files content folder fls fs =
     (if folder \<in> unwritable fs then (fs, False) else write_loop content folder fls fs)"

text \<open>
  \<^verbatim>\<open>_complete_download\<close> (lines 145-196). An exception of the single-file write leaves the
  \<^verbatim>\<open>try\<close> before the state is saved and before the automatic stop.
\<close>

definition complete_download ::
  "(string \<Rightarrow> int \<Rightarrow> string) \<Rightarrow> DownloadWorker \<Rightarrow> filesystem \<Rightarrow> DownloadWorker \<times> filesystem" where
  "complete_download content w fs =
     (let d = (download_w w)\<lparr>completed := True, downloading := False, download_progress := 100\<rparr>;
          w1 = w\<lparr>download_w := d\<rparr>;
          finish = (\<lambda>fs'. (if auto_stop (settings d) then fst (worker_stop w1) else w1,
                            save_state d fs'))
      in if is_multi_file d \<and> files d \<noteq> [] then
           (let files_info = map (\<lambda>f. (path f, length_f f)) (filter selected (files d))
            in if files_info \<noteq> []
               then finish (fst (write_files content (download_folder d) files_info fs))
               else finish fs)
         else if path_join (download_folder d) (name d) \<in> unwritable fs then (w1, fs)
         else finish (fs\<lparr>disk := (disk fs)(path_join (download_folder d) (name d) \<mapsto>
                              content (name d) (total_size d))\<rparr>))"

definition download_worker ::
  "(string \<Rightarrow> int \<Rightarrow> string) \<Rightarrow> DownloadWorker \<Rightarrow> filesystem
     \<Rightarrow> (DownloadWorker \<times> filesystem) option" where
  "download_worker content w fs =
     (case worker_batches (batch_starts (length (pieces (download_w w))) BATCH_SIZE) ((w, 0), fs) of
        None \<Rightarrow> None
      | Some sf \<Rightarrow>
          (let w1 = fst (fst sf);
               r = (if \<not> stopped w1 then complete_download content w1 (snd sf) else (w1, snd sf))
           in Some ((fst r)\<lparr>running := False\<rparr>, snd r)))"

section \<open>The registry of downloads\<close>

text \<open>
  \<^verbatim>\<open>BitTorrentClient\<close> of app.py and \<^verbatim>\<open>DownloadService\<close> of services/download_service.py keep the
  same dictionary from torrent id to download, here the list of its items in insertion order.
\<close>

record registry =
  downloads :: "(string \<times> Download) list"
  download_dir_r :: string

text \<open>The assignment \<^verbatim>\<open>self.downloads[key] = v\<close>: a key that is there keeps its place.\<close>

fun dict_set :: "string \<Rightarrow> 'v \<Rightarrow> (string \<times> 'v) list \<Rightarrow> (string \<times> 'v) list" where
  "dict_set key v [] = [(key, v)]"
| "dict_set key v (item # items) =
     (if fst item = key then (key, v) # items else item # dict_set key v items)"

definition index_entry_of :: "Download \<Rightarrow> index_entry" where
  "index_entry_of d =
     \<lparr>name_ie = name d, total_size_ie = total_size d,
      pieces_ie = map (\<lambda>p. p\<lparr>data := None\<rparr>) (pieces d),
      download_dir_ie = download_dir d, state_file_ie = state_file d,
      settings_ie = settings d, is_multi_file_ie = is_multi_file d,
      files_ie = (if is_multi_file d then Some (files d) else None)\<rparr>"

definition STATE_FILE :: string where
  "STATE_FILE = ''download_state.json''"

definition save_downloads_state :: "registry \<Rightarrow> filesystem \<Rightarrow> filesystem" where
  "save_downloads_state c fs =
     (if STATE_FILE \<in> unwritable fs then fs
      else fs\<lparr>index_file := Some (map (\<lambda>item. (fst item, index_entry_of (snd item))) (downloads c))\<rparr>)"

text \<open>
  \<^verbatim>\<open>BitTorrentClient.parse_torrent\<close> of app.py (lines 832-901) on the decoded metadata: the body
  of the \<^verbatim>\<open>try\<close>, and the method, which returns \<^verbatim>\<open>(None, False)\<close> for any exception with the
  registry as it was.
\<close>

definition parse_torrent_body ::
  "(pyval \<Rightarrow> string) \<Rightarrow> string \<Rightarrow> pyval \<Rightarrow> DownloadSettings \<Rightarrow> registry \<times> filesystem
     \<Rightarrow> error + ((registry \<times> filesystem) \<times> string)" where
  "parse_torrent_body digest stem torrent_data stg cf =
     ebind (getitem torrent_data ''info'') (\<lambda>info_dict.
     let tid = take 16 (hex (digest info_dict)); c = fst cf; fs = snd cf in
     if map_of (downloads c) tid \<noteq> None then Inr (cf, tid)
     else
       ebind (read_info stem info_dict) (\<lambda>(nm, total_sz, pl, ps, is_multi, files_info).
       ebind (new_Download tid nm total_sz ps (download_dir_r c) stg is_multi fs) (\<lambda>d.
       ebind (if is_multi then add_files files_info d else Inr d) (\<lambda>d'.
         let c' = c\<lparr>downloads := dict_set tid d' (downloads c)\<rparr>
         in Inr ((c', save_downloads_state c' fs), tid)))))"

definition parse_torrent ::
  "(pyval \<Rightarrow> string) \<Rightarrow> string \<Rightarrow> pyval \<Rightarrow> DownloadSettings \<Rightarrow> registry \<times> filesystem
     \<Rightarrow> (registry \<times> filesystem) \<times> string option \<times> bool" where
  "parse_torrent digest stem torrent_data stg cf =
     (case parse_torrent_body digest stem torrent_data stg cf of
        Inl e \<Rightarrow> (cf, None, False)
      | Inr r \<Rightarrow> (fst r, Some (snd r), True))"





definition resumed_fs :: filesystem where
  "resumed_fs =
     \<lparr>state_files = [''downloads/0123456789abcdef/state.json'' \<mapsto>
        \<lparr>downloaded_pieces_s = {0}, downloaded_size_s = 10, completed_s = False,
         file_selections_s = Map.empty\<rparr>],
      disk = Map.empty, index_file = None, unwritable = {}\<rparr>"

definition resumed_download :: Download where
  "resumed_download =
     example_download\<lparr>downloaded_pieces := {0}, downloaded_size := 10, download_progress := 50\<rparr>"


text \<open>
  \<^verbatim>\<open>BitTorrentClient.load_downloads\<close> of app.py (lines 753-801; the same text in
  services/download_service.py), run when the process starts: every entry of the global index
  whose state file exists becomes a download again, its files taken from the index. One \<^verbatim>\<open>try\<close>
  encloses the loop, so an exception ends it with the downloads loaded so far.
\<close>

definition load_entry :: "filesystem \<Rightarrow> string \<times> index_entry \<Rightarrow> error + Download" where
  "load_entry fs item =
     (let torrent_id = fst item; download_info = snd item in
      ebind (new_Download torrent_id (name_ie download_info) (total_size_ie download_info)
               (pieces_ie download_info) (download_dir_ie download_info)
               (settings_ie download_info) (is_multi_file_ie download_info) fs) (\<lambda>d.
        Inr (case files_ie download_info of
               None \<Rightarrow> d
             | Some fls \<Rightarrow>
                 if is_multi_file d
                 then d\<lparr>files := map (\<lambda>f. \<lparr>path = path f, length_f = length_f f, offset = offset f,
                                             downloaded_f = False, selected = selected f\<rparr>) fls\<rparr>
                 else d)))"

fun load_entries ::
  "filesystem \<Rightarrow> (string \<times> index_entry) list \<Rightarrow> (string \<times> Download) list
     \<Rightarrow> (string \<times> Download) list" where
  "load_entries fs [] ds = ds"
| "load_entries fs (item # rest) ds =
     (if state_files fs (state_file_ie (snd item)) = None then load_entries fs rest ds
      else
        (case load_entry fs item of
           Inl e \<Rightarrow> ds
         | Inr d \<Rightarrow> load_entries fs rest (dict_set (fst item) d ds)))"

definition load_downloads :: "filesystem \<Rightarrow> registry \<Rightarrow> registry" where
  "load_downloads fs c =
     (case index_file fs of
        None \<Rightarrow> c
      | Some entries \<Rightarrow> c\<lparr>downloads := load_entries fs entries (downloads c)\<rparr>)"

text \<open>
  \<^verbatim>\<open>BitTorrentClient.update_file_selection\<close>: the method of the registered download, which
  is changed in place. It saves the state file of the download and leaves the global index as
  it is.
\<close>

definition registry_update_file_selection ::
  "string \<Rightarrow> (string \<times> bool) list \<Rightarrow> registry \<times> filesystem \<Rightarrow> (registry \<times> filesystem) \<times> bool" where
  "registry_update_file_selection tid file_selections cf =
     (case map_of (downloads (fst cf)) tid of
        None \<Rightarrow> (cf, False)
      | Some d \<Rightarrow>
          (let r = update_file_selection file_selections d (snd cf)
           in (((fst cf)\<lparr>downloads := dict_set tid (fst r) (downloads (fst cf))\<rparr>,
                fst (snd r)), snd (snd r))))"

definition empty_fs :: filesystem where
  "empty_fs = \<lparr>state_files = Map.empty, disk = Map.empty, index_file = None, unwritable = {}\<rparr>"

definition empty_registry :: registry where
  "empty_registry = \<lparr>downloads = [], download_dir_r = ''downloads''\<rparr>"

definition example_multi_download :: Download where
  "example_multi_download =
     \<lparr>torrent_id = ''6868686868686868'', name = ''dir'', total_size = 12,
      pieces =
        [\<lparr>index = 0, size_p = 10, hash = PBytes (replicate 20 (CHR ''x'')), data = None,
           downloaded_p = False\<rparr>,
         \<lparr>index = 1, size_p = 2, hash = PBytes (replicate 20 (CHR ''x'')), data = None,
           downloaded_p = False\<rparr>],
      download_dir = ''downloads'', settings = example_settings, is_multi_file = True,
      files =
        [\<lparr>path = ''d/a.txt'', length_f = 7, offset = 0, downloaded_f = False, selected = True\<rparr>,
         \<lparr>path = ''b.txt'', length_f = 5, offset = 7, downloaded_f = False, selected = True\<rparr>],
      downloading = False, paused = False, download_progress = 0, downloaded_size = 0,
      completed = False, downloaded_pieces = {}, state = StoppedState\<rparr>"

definition example_multi_registry :: registry where
  "example_multi_registry =
     \<lparr>downloads = [(''6868686868686868'', example_multi_download)],
      download_dir_r = ''downloads''\<rparr>"

definition selection_scenario :: "registry \<times> filesystem" where
  "selection_scenario =
     fst (registry_update_file_selection ''6868686868686868'' [(''b.txt'', False)]
            (fst (parse_torrent example_digest ''a'' example_multi example_settings
                    (empty_registry, empty_fs))))"

definition restarted :: registry where
  "restarted = load_downloads (snd selection_scenario) empty_registry"



section \<open>C2: the transition table\<close>

lemma listed_cases:
  "listed s e =
     (if s = StoppedState \<and> e = Start then Some DownloadingState
      else if s = DownloadingState \<and> e = Pause then Some PausedState
      else if s = DownloadingState \<and> e = Stop then Some StoppedState
      else if s = PausedState \<and> e = Resume then Some DownloadingState
      else if s = PausedState \<and> e = Stop then Some StoppedState
      else None)"
  by (simp add: listed_def transition_table_def)

text \<open>
  C2. For a pair (state, event) the table does not list, the operation returns false and
  the download is returned as it was, state tag and every other field; for a listed pair
  it returns true and the state tag is the listed next state.
\<close>

theorem C2_transitions:
  "(case listed (state download) e of
      None \<Rightarrow> dispatch e download = (download, False)
    | Some s' \<Rightarrow>
        snd (dispatch e download) = True \<and> state (fst (dispatch e download)) = s')"
  by (cases "state download"; cases e; simp add: listed_cases)

theorem C2_transitions_witness:
  "dispatch Start (example_download\<lparr>state := DownloadingState\<rparr>)
     = (example_download\<lparr>state := DownloadingState\<rparr>, False)
   \<and> snd (dispatch Stop (example_download\<lparr>state := PausedState\<rparr>)) = True
   \<and> state (fst (dispatch Stop (example_download\<lparr>state := PausedState\<rparr>))) = StoppedState"
  using C2_transitions [where download = "example_download\<lparr>state := DownloadingState\<rparr>" and e = Start]
    C2_transitions [where download = "example_download\<lparr>state := PausedState\<rparr>" and e = Stop]
  by (simp add: listed_cases)

lemma ebind_Inr_iff: "ebind m f = Inr y \<longleftrightarrow> (\<exists>v. m = Inr v \<and> f v = Inr y)"
  by (cases m) (simp_all add: ebind_def)

lemma make_pieces_length: "make_pieces ph pl t js = Inr ps \<Longrightarrow> length ps = length js"
  by (induction js arbitrary: ps) (auto split: sum.splits)

lemma make_pieces_nth:
  "make_pieces ph pl t js = Inr ps \<Longrightarrow> k < length js \<Longrightarrow>
     size_p (ps ! k) = min pl (t - int (js ! k) * pl)
     \<and> index (ps ! k) = int (js ! k)
     \<and> slice_py ph (int (js ! k) * 20) (int (js ! k) * 20 + 20) = Inr (hash (ps ! k))"
proof (induction js arbitrary: ps k)
  case Nil
  then show ?case by simp
next
  case (Cons j js)
  then show ?case
    by (cases k) (auto split: sum.splits)
qed

lemma make_pieces_upt_size:
  assumes "make_pieces ph pl t [0 ..< n] = Inr ps" and "k < n"
  shows "size_p (ps ! k) = min pl (t - int k * pl)"
  using make_pieces_nth [OF assms(1), of k] assms(2) by simp

lemma num_pieces_of_Inr:
  "num_pieces_of a b = Inr (t, pl, n) \<Longrightarrow>
     a = PInt t \<and> b = PInt pl \<and> (\<exists>q. true_divide t pl = Inr q \<and> n = math_ceil q)"
  by (cases a; cases b) (auto simp: ebind_Inr_iff)

lemma read_info_pieces:
  assumes "read_info stem info = Inr (nm, t, pl, ps, m, fi)"
  shows "\<exists>ph q. getitem info ''pieces'' = Inr ph \<and> true_divide t pl = Inr q
     \<and> make_pieces ph pl t [0 ..< nat (math_ceil q)] = Inr ps"
  using assms
  by (auto simp: read_info_def ebind_Inr_iff dest!: num_pieces_of_Inr split: if_splits)

lemma ceil_lower:
  assumes "0 < pl" "j < \<lceil>real_of_int t / real_of_int pl\<rceil>"
  shows "j * pl < t"
proof -
  have "real_of_int j < real_of_int t / real_of_int pl"
    using assms(2) by (simp add: less_ceiling_iff)
  moreover have p: "0 < real_of_int pl" using assms(1) by simp
  ultimately have "real_of_int j * real_of_int pl < real_of_int t"
    by (simp only: pos_less_divide_eq [OF p])
  then have "real_of_int (j * pl) < real_of_int t" by simp
  then show ?thesis by (simp only: of_int_less_iff)
qed

lemma ceil_upper:
  assumes "0 < pl"
  shows "t \<le> \<lceil>real_of_int t / real_of_int pl\<rceil> * pl"
proof -
  have "real_of_int t / real_of_int pl \<le> real_of_int \<lceil>real_of_int t / real_of_int pl\<rceil>"
    by (rule le_of_int_ceiling)
  moreover have p: "0 < real_of_int pl" using assms by simp
  ultimately have "real_of_int t \<le> real_of_int \<lceil>real_of_int t / real_of_int pl\<rceil> * real_of_int pl"
    by (simp only: pos_divide_le_eq [OF p])
  then have "real_of_int t \<le> real_of_int (\<lceil>real_of_int t / real_of_int pl\<rceil> * pl)" by simp
  then show ?thesis by (simp only: of_int_le_iff)
qed

lemma make_pieces_layout:
  assumes mk: "make_pieces ph pl t [0 ..< nat \<lceil>real_of_int t / real_of_int pl\<rceil>] = Inr ps"
    and pl: "0 < pl" and t: "0 \<le> t"
  shows "int (length ps) = \<lceil>real_of_int t / real_of_int pl\<rceil>"
    and "\<And>i. Suc i < length ps \<Longrightarrow> size_p (ps ! i) = pl"
    and "ps \<noteq> [] \<Longrightarrow> size_p (last ps) = t - (int (length ps) - 1) * pl"
proof -
  let ?c = "\<lceil>real_of_int t / real_of_int pl\<rceil>"
  have "0 \<le> real_of_int t / real_of_int pl" using pl t by simp
  then have "\<lceil>0::real\<rceil> \<le> ?c" by (rule ceiling_mono)
  then have c0: "0 \<le> ?c" by simp
  have len: "length ps = nat ?c" using make_pieces_length [OF mk] by simp
  show n: "int (length ps) = ?c" using len c0 by simp
  { fix i assume i: "Suc i < length ps"
    then have "i < nat ?c" using len by simp
    from make_pieces_upt_size [OF mk this]
    have sz: "size_p (ps ! i) = min pl (t - int i * pl)" .
    have "int i + 1 < ?c" using i n by linarith
    from ceil_lower [OF pl this] have "(int i + 1) * pl < t" .
    then have "pl \<le> t - int i * pl" by (simp add: algebra_simps)
    with sz show "size_p (ps ! i) = pl" by simp }
  { assume ne: "ps \<noteq> []"
    then have pos: "0 < length ps" by simp
    let ?k = "length ps - 1"
    have k: "?k < nat ?c" using pos len by simp
    from make_pieces_upt_size [OF mk k]
    have sz: "size_p (ps ! ?k) = min pl (t - int ?k * pl)" .
    have ik: "int ?k = int (length ps) - 1" using pos by linarith
    have "t \<le> ?c * pl" by (rule ceil_upper [OF pl])
    then have "t \<le> (int ?k + 1) * pl" using n ik by simp
    then have "t - int ?k * pl \<le> pl" by (simp add: algebra_simps)
    with sz have "size_p (ps ! ?k) = t - int ?k * pl" by simp
    then show "size_p (last ps) = t - (int (length ps) - 1) * pl"
      using ne ik by (simp add: last_conv_nth) }
qed

lemma parse_torrent_info_read:
  assumes "parse_torrent_info digest stem td = Inr ti"
  shows "\<exists>info nm fi. getitem td ''info'' = Inr info
     \<and> read_info stem info =
         Inr (nm, total_size_ti ti, piece_length_ti ti, pieces_ti ti, is_multi_file_ti ti, fi)
     \<and> (if is_multi_file_ti ti then ebind (iter_py fi) (\<lambda>fs. files_loop fs 0) else Inr [])
         = Inr (files_ti ti)"
  using assms
  by (auto simp: parse_torrent_info_def ebind_Inr_iff Let_def split: if_splits)

lemmas float_eval =
  true_divide_def round_half_even_def bit_length.simps Let_def

lemmas parse_eval =
  parse_torrent_info_def read_info_def ebind_def name_or_def valid_utf8_def upt_rec
  py_slice_def clamp_index_def example_digest_def single_file_torrent_def float_eval

lemma example_single_parse:
  "parse_torrent_info example_digest ''a'' example_single =
     Inr \<lparr>name_ti = ''a.bin'', total_size_ti = 49152, piece_length_ti = 16384,
          pieces_ti =
            [\<lparr>index = 0, size_p = 16384, hash = PBytes (replicate 20 (CHR ''x'')), data = None,
               downloaded_p = False\<rparr>,
             \<lparr>index = 1, size_p = 16384, hash = PBytes (replicate 20 (CHR ''x'')), data = None,
               downloaded_p = False\<rparr>,
             \<lparr>index = 2, size_p = 16384, hash = PBytes (replicate 20 (CHR ''x'')), data = None,
               downloaded_p = False\<rparr>],
          files_ti = [], is_multi_file_ti = False,
          info_hash_ti = ''hhhhhhhhhhhhhhhhhhhh''\<rparr>"
  by (simp add: example_single_def parse_eval)

lemma big_quotient:
  "true_divide 100000000000000001 100000000000000000 = Inr (Double False 4503599627370496 (- 52))"
  by (simp add: float_eval)

text \<open>
  C1. The length 10^17 + 1 with the piece length 10^17 is accepted, and the exact quotient has
  the ceiling 2. The float quotient is 1.0, the nearest double, so the parser builds one piece,
  of 10^17 bytes: the number of pieces is not the ceiling, and the last piece has not the size
  total size - (number of pieces - 1) * piece length, which is 10^17 + 1.
\<close>

theorem C1_float_quotient:
  "validate_torrent_file big_torrent
   \<and> TorrentService_parse_torrent example_digest ''a'' big_torrent =
       Some \<lparr>name_ti = ''a.bin'', total_size_ti = 100000000000000001,
          piece_length_ti = 100000000000000000,
          pieces_ti =
            [\<lparr>index = 0, size_p = 100000000000000000, hash = PBytes (replicate 20 (CHR ''x'')),
               data = None, downloaded_p = False\<rparr>],
          files_ti = [], is_multi_file_ti = False,
          info_hash_ti = ''hhhhhhhhhhhhhhhhhhhh''\<rparr>
   \<and> \<lceil>real_of_int 100000000000000001 / real_of_int 100000000000000000\<rceil> = (2 :: int)"
proof -
  have "\<lceil>real_of_int 100000000000000001 / real_of_int 100000000000000000\<rceil> = (2 :: int)"
    by (simp add: ceiling_eq_iff)
  moreover have "validate_torrent_file big_torrent"
    by (simp add: big_torrent_def single_file_torrent_def validate_torrent_file_def
        validate_body_def ebind_def)
  moreover have "TorrentService_parse_torrent example_digest ''a'' big_torrent =
       Some \<lparr>name_ti = ''a.bin'', total_size_ti = 100000000000000001,
          piece_length_ti = 100000000000000000,
          pieces_ti =
            [\<lparr>index = 0, size_p = 100000000000000000, hash = PBytes (replicate 20 (CHR ''x'')),
               data = None, downloaded_p = False\<rparr>],
          files_ti = [], is_multi_file_ti = False,
          info_hash_ti = ''hhhhhhhhhhhhhhhhhhhh''\<rparr>"
    by (simp add: big_torrent_def TorrentService_parse_torrent_def parse_torrent_info_def
        read_info_def single_file_torrent_def big_quotient ebind_def name_or_def valid_utf8_def
        upt_rec py_slice_def clamp_index_def example_digest_def)
  ultimately show ?thesis by simp
qed

lemma py_slice_nonneg:
  assumes "0 \<le> a" "a \<le> b"
  shows "py_slice xs a b = take (nat (b - a)) (drop (nat a) xs)"
proof -
  let ?n = "int (length xs)"
  consider "?n \<le> a" | "a < ?n" "?n \<le> b" | "b < ?n" by linarith
  then show ?thesis
  proof cases
    case 1
    then show ?thesis using assms by (simp add: py_slice_def clamp_index_def Let_def min_def)
  next
    case 2
    then have "nat (?n - a) = length (drop (nat a) xs)" using assms by simp
    moreover have "length (drop (nat a) xs) \<le> nat (b - a)" using 2 assms by simp
    ultimately show ?thesis using 2 assms
      by (simp add: py_slice_def clamp_index_def Let_def min_def)
  next
    case 3
    then show ?thesis using assms by (simp add: py_slice_def clamp_index_def Let_def min_def)
  qed
qed

lemma py_slice_hash: "py_slice bs (int i * 20) (int i * 20 + 20) = take 20 (drop (20 * i) bs)"
proof -
  have "nat (int i * 20) = 20 * i" by (simp add: nat_mult_distrib)
  then show ?thesis by (simp add: py_slice_nonneg)
qed

lemma make_pieces_bytes:
  "make_pieces (PBytes bs) pl t js =
     Inr (map (\<lambda>i. \<lparr>index = int i, size_p = min pl (t - int i * pl),
                     hash = PBytes (take 20 (drop (20 * i) bs)), data = None,
                     downloaded_p = False\<rparr>) js)"
  by (induction js) (simp_all add: py_slice_hash)

lemma map_of_filter_neq:
  "map_of (filter (\<lambda>kv. fst kv \<noteq> k) items) k' = (if k' = k then None else map_of items k')"
  by (induction items) auto

lemma getitem_set_item:
  "getitem (set_item k v (PDict items)) k' = (if k' = k then Inr v else getitem (PDict items) k')"
  by (simp add: map_of_filter_neq)

lemma contains_set_item:
  "contains k' (set_item k v (PDict items)) =
     (if k' = k then Inr True else contains k' (PDict items))"
  by (simp add: map_of_filter_neq)

lemma read_info_set_pieces:
  assumes "read_info stem (set_item ''pieces'' (PBytes bs) (PDict it)) = Inr (nm, t, pl, ps, m, fi)"
  shows "\<exists>n. ps = map (\<lambda>i. \<lparr>index = int i, size_p = min pl (t - int i * pl),
                     hash = PBytes (take 20 (drop (20 * i) bs)), data = None,
                     downloaded_p = False\<rparr>) [0 ..< n]
     \<and> read_info stem (set_item ''pieces'' (PBytes bs') (PDict it)) =
           Inr (nm, t, pl,
                map (\<lambda>i. \<lparr>index = int i, size_p = min pl (t - int i * pl),
                     hash = PBytes (take 20 (drop (20 * i) bs')), data = None,
                     downloaded_p = False\<rparr>) [0 ..< n],
                m, fi)"
  using assms
  unfolding read_info_def name_or_def getitem_set_item contains_set_item
  by (auto simp: ebind_Inr_iff make_pieces_bytes dest!: num_pieces_of_Inr split: if_splits)

text \<open>
  C7 (amended). The parser does not check the length of \<^verbatim>\<open>pieces\<close>: when it accepts metadata
  whose \<^verbatim>\<open>pieces\<close> is some byte string, it accepts the same metadata with any other byte string
  there, of any length, with the same pieces but for their hashes; the hash of piece k is the
  slice of \<^verbatim>\<open>pieces\<close> from 20 k to 20 k + 20, shorter than 20 bytes or empty when \<^verbatim>\<open>pieces\<close> ends
  before.
\<close>

theorem C7_pieces_length_not_checked:
  assumes "parse_torrent_info digest stem (with_pieces bs torrent_data) = Inr ti"
  shows "\<exists>ti'. parse_torrent_info digest stem (with_pieces bs' torrent_data) = Inr ti'
           \<and> map size_p (pieces_ti ti') = map size_p (pieces_ti ti)
           \<and> map index (pieces_ti ti') = map index (pieces_ti ti)
           \<and> (\<forall>k < length (pieces_ti ti').
                 hash (pieces_ti ti' ! k) = PBytes (take 20 (drop (20 * k) bs')))"
proof -
  from parse_torrent_info_read [OF assms] obtain info nm fi where
    g: "getitem (with_pieces bs torrent_data) ''info'' = Inr info"
    and r: "read_info stem info =
              Inr (nm, total_size_ti ti, piece_length_ti ti, pieces_ti ti, is_multi_file_ti ti, fi)"
    and f: "(if is_multi_file_ti ti then ebind (iter_py fi) (\<lambda>fs. files_loop fs 0) else Inr [])
              = Inr (files_ti ti)"
    by blast
  from g obtain items where td: "torrent_data = PDict items"
    by (cases torrent_data) (simp_all add: with_pieces_def)
  from g td obtain info0 where i0: "getitem torrent_data ''info'' = Inr info0"
    by (cases "getitem torrent_data ''info''") (simp_all add: with_pieces_def)
  have gi: "\<And>b. getitem (with_pieces b torrent_data) ''info'' =
              Inr (set_item ''pieces'' (PBytes b) info0)"
    using i0 by (simp add: with_pieces_def td)
  from g gi have info: "info = set_item ''pieces'' (PBytes bs) info0" by simp
  obtain it where d: "info0 = PDict it"
  proof (cases info0)
    case (PDict it)
    then show ?thesis using that by blast
  qed (use r info in \<open>simp_all add: read_info_def ebind_def\<close>)
  from r have "\<exists>n. pieces_ti ti
        = map (\<lambda>i. \<lparr>index = int i,
                     size_p = min (piece_length_ti ti) (total_size_ti ti - int i * piece_length_ti ti),
                     hash = PBytes (take 20 (drop (20 * i) bs)), data = None,
                     downloaded_p = False\<rparr>) [0 ..< n]
      \<and> read_info stem (set_item ''pieces'' (PBytes bs') (PDict it)) =
          Inr (nm, total_size_ti ti, piece_length_ti ti,
               map (\<lambda>i. \<lparr>index = int i,
                     size_p = min (piece_length_ti ti) (total_size_ti ti - int i * piece_length_ti ti),
                     hash = PBytes (take 20 (drop (20 * i) bs')), data = None,
                     downloaded_p = False\<rparr>) [0 ..< n],
               is_multi_file_ti ti, fi)"
    unfolding info d by (rule read_info_set_pieces)
  then obtain n where
    ps: "pieces_ti ti
        = map (\<lambda>i. \<lparr>index = int i,
                     size_p = min (piece_length_ti ti) (total_size_ti ti - int i * piece_length_ti ti),
                     hash = PBytes (take 20 (drop (20 * i) bs)), data = None,
                     downloaded_p = False\<rparr>) [0 ..< n]"
    and r': "read_info stem (set_item ''pieces'' (PBytes bs') (PDict it)) =
          Inr (nm, total_size_ti ti, piece_length_ti ti,
               map (\<lambda>i. \<lparr>index = int i,
                     size_p = min (piece_length_ti ti) (total_size_ti ti - int i * piece_length_ti ti),
                     hash = PBytes (take 20 (drop (20 * i) bs')), data = None,
                     downloaded_p = False\<rparr>) [0 ..< n],
               is_multi_file_ti ti, fi)"
    by blast
  let ?ps = "map (\<lambda>i. \<lparr>index = int i,
                     size_p = min (piece_length_ti ti) (total_size_ti ti - int i * piece_length_ti ti),
                     hash = PBytes (take 20 (drop (20 * i) bs')), data = None,
                     downloaded_p = False\<rparr>) [0 ..< n]"
  have sz: "map size_p ?ps = map size_p (pieces_ti ti)"
    unfolding ps by simp
  have ix: "map index ?ps = map index (pieces_ti ti)"
    unfolding ps by simp
  let ?ti = "\<lparr>name_ti = nm, total_size_ti = total_size_ti ti, piece_length_ti = piece_length_ti ti,
      pieces_ti = ?ps, files_ti = files_ti ti, is_multi_file_ti = is_multi_file_ti ti,
      info_hash_ti = digest (set_item ''pieces'' (PBytes bs') (PDict it))\<rparr>"
  have "parse_torrent_info digest stem (with_pieces bs' torrent_data) = Inr ?ti"
    using f by (simp add: parse_torrent_info_def gi d r' ebind_Inr_iff Let_def del: set_item.simps)
  moreover have "\<forall>k < length ?ps. hash (?ps ! k) = PBytes (take 20 (drop (20 * k) bs'))"
    by simp
  ultimately show ?thesis using sz ix by (intro exI [of _ ?ti]) simp
qed

lemma example_single_with_pieces:
  "parse_torrent_info example_digest ''a'' (with_pieces (replicate 60 (CHR ''x'')) example_single) =
     Inr \<lparr>name_ti = ''a.bin'', total_size_ti = 49152, piece_length_ti = 16384,
          pieces_ti =
            [\<lparr>index = 0, size_p = 16384, hash = PBytes (replicate 20 (CHR ''x'')), data = None,
               downloaded_p = False\<rparr>,
             \<lparr>index = 1, size_p = 16384, hash = PBytes (replicate 20 (CHR ''x'')), data = None,
               downloaded_p = False\<rparr>,
             \<lparr>index = 2, size_p = 16384, hash = PBytes (replicate 20 (CHR ''x'')), data = None,
               downloaded_p = False\<rparr>],
          files_ti = [], is_multi_file_ti = False,
          info_hash_ti = ''hhhhhhhhhhhhhhhhhhhh''\<rparr>"
  by (simp add: example_single_def with_pieces_def parse_eval)

theorem C7_pieces_length_not_checked_witness:
  "(case parse_torrent_info example_digest ''a'' (with_pieces ''abcde'' example_single) of
      Inl e \<Rightarrow> False
    | Inr ti' \<Rightarrow>
        map size_p (pieces_ti ti') = [16384, 16384, 16384]
        \<and> hash (pieces_ti ti' ! 0) = PBytes ''abcde''
        \<and> hash (pieces_ti ti' ! 1) = PBytes []
        \<and> hash (pieces_ti ti' ! 2) = PBytes [])"
proof -
  from C7_pieces_length_not_checked [OF example_single_with_pieces, of "''abcde''"]
  obtain ti' where
    p: "parse_torrent_info example_digest ''a'' (with_pieces ''abcde'' example_single) = Inr ti'"
    and s: "map size_p (pieces_ti ti') = [16384, 16384, 16384]"
    and h: "\<forall>k < length (pieces_ti ti'). hash (pieces_ti ti' ! k) = PBytes (take 20 (drop (20 * k) ''abcde''))"
    by auto
  from s have "length (pieces_ti ti') = 3" by (metis length_map length_Cons list.size(3) numeral_3_eq_3)
  with h have "hash (pieces_ti ti' ! 0) = PBytes ''abcde''" "hash (pieces_ti ti' ! 1) = PBytes []"
    "hash (pieces_ti ti' ! 2) = PBytes []" by simp_all
  with p s show ?thesis by simp
qed

text \<open>
  C7 as stated fails: metadata whose \<^verbatim>\<open>pieces\<close> has 5 bytes, for 3 pieces, passes the validation
  and is parsed.
\<close>

theorem C7_counterexample:
  "length ''abcde'' mod 20 \<noteq> 0 \<and> length ''abcde'' < 3 * 20

   \<and> validate_torrent_file short_pieces_torrent
   \<and> TorrentService_parse_torrent example_digest ''a'' short_pieces_torrent =
       Some \<lparr>name_ti = ''a.bin'', total_size_ti = 49152, piece_length_ti = 16384,
          pieces_ti =
            [\<lparr>index = 0, size_p = 16384, hash = PBytes ''abcde'', data = None,
               downloaded_p = False\<rparr>,
             \<lparr>index = 1, size_p = 16384, hash = PBytes [], data = None,
               downloaded_p = False\<rparr>,
             \<lparr>index = 2, size_p = 16384, hash = PBytes [], data = None,
               downloaded_p = False\<rparr>],
          files_ti = [], is_multi_file_ti = False,
          info_hash_ti = ''hhhhhhhhhhhhhhhhhhhh''\<rparr>"
  by (simp add: short_pieces_torrent_def TorrentService_parse_torrent_def validate_torrent_file_def
      validate_body_def parse_eval)

lemma file_entry_fields:
  assumes "file_entry file_info off = Inr f"
  shows "offset f = off" and "getitem file_info ''length'' = Inr (PInt (length_f f))"
proof -
  from assms obtain file_path len where
    g: "getitem file_info ''length'' = Inr len"
    and c: "(case len of
               PInt n \<Rightarrow> Inr \<lparr>path = file_path, length_f = n, offset = off,
                               downloaded_f = False, selected = True\<rparr>
             | _ \<Rightarrow> Inl TypeError) = Inr f"
    unfolding file_entry_def ebind_Inr_iff by blast
  from c obtain n where "len = PInt n"
    and "f = \<lparr>path = file_path, length_f = n, offset = off, downloaded_f = False, selected = True\<rparr>"
    by (cases len) auto
  with g show "offset f = off" and "getitem file_info ''length'' = Inr (PInt (length_f f))"
    by simp_all
qed

lemma files_loop_length: "files_loop fs off = Inr fls \<Longrightarrow> length fls = length fs"
  by (induction fs arbitrary: off fls) (auto split: sum.splits)

lemma files_loop_hd:
  "files_loop fs off = Inr fls \<Longrightarrow> fls \<noteq> [] \<Longrightarrow> offset (hd fls) = off"
  by (cases fs) (auto split: sum.splits dest: file_entry_fields(1))

lemma files_loop_adjacent:
  "files_loop fs off = Inr fls \<Longrightarrow> Suc i < length fls \<Longrightarrow>
     offset (fls ! i) + length_f (fls ! i) = offset (fls ! Suc i)"
proof (induction fs arbitrary: off fls i)
  case Nil
  then show ?case by simp
next
  case (Cons file_info rest)
  from Cons.prems(1) obtain f fls' where
    f: "file_entry file_info off = Inr f"
    and r: "files_loop rest (off + length_f f) = Inr fls'"
    and fls: "fls = f # fls'"
    by (auto split: sum.splits)
  show ?case
  proof (cases i)
    case 0
    with Cons.prems(2) fls have "fls' \<noteq> []" by auto
    from files_loop_hd [OF r this] have "offset (hd fls') = off + length_f f" .
    with 0 fls \<open>fls' \<noteq> []\<close> file_entry_fields(1) [OF f] show ?thesis
      by (simp add: hd_conv_nth)
  next
    case (Suc j)
    with Cons.prems(2) fls have "Suc j < length fls'" by simp
    from Cons.IH [OF r this] Suc fls show ?thesis by simp
  qed
qed

lemma files_loop_sum:
  "files_loop fs off = Inr fls \<Longrightarrow> sum_lengths fs acc = Inr (acc + sum_list (map length_f fls))"
proof (induction fs arbitrary: off fls acc)
  case Nil
  then show ?case by simp
next
  case (Cons file_info rest)
  from Cons.prems obtain f fls' where
    f: "file_entry file_info off = Inr f"
    and r: "files_loop rest (off + length_f f) = Inr fls'"
    and fls: "fls = f # fls'"
    by (auto split: sum.splits)
  from Cons.IH [OF r, of "acc + length_f f"] file_entry_fields(2) [OF f] fls
  show ?case by (simp add: algebra_simps)
qed

lemma read_info_multi:
  assumes "read_info stem info = Inr (nm, t, pl, ps, True, fi)"
  shows "\<exists>fs. iter_py fi = Inr fs \<and> sum_lengths fs 0 = Inr t"
  using assms
  by (auto simp: read_info_def ebind_Inr_iff dest!: num_pieces_of_Inr split: if_splits)

text \<open>
  C8. For every multi-file torrent the parser accepts, the lengths of the file entries add up
  to the total size, the first offset is 0, and each entry's offset plus its length is the
  next entry's offset.
\<close>

theorem C8_file_offsets:
  assumes "parse_torrent_info digest stem torrent_data = Inr ti" and "is_multi_file_ti ti"
  shows "sum_list (map length_f (files_ti ti)) = total_size_ti ti
       \<and> (files_ti ti \<noteq> [] \<longrightarrow> offset (hd (files_ti ti)) = 0)
       \<and> (\<forall>i. Suc i < length (files_ti ti) \<longrightarrow>
             offset (files_ti ti ! i) + length_f (files_ti ti ! i) = offset (files_ti ti ! Suc i))"
proof -
  from parse_torrent_info_read [OF assms(1)] assms(2) obtain info nm fi where
    r: "read_info stem info =
          Inr (nm, total_size_ti ti, piece_length_ti ti, pieces_ti ti, True, fi)"
    and f: "ebind (iter_py fi) (\<lambda>fs. files_loop fs 0) = Inr (files_ti ti)"
    by auto
  from read_info_multi [OF r] obtain fs where
    it: "iter_py fi = Inr fs" and s: "sum_lengths fs 0 = Inr (total_size_ti ti)" by blast
  from f it have l: "files_loop fs 0 = Inr (files_ti ti)" by (simp add: ebind_def)
  from files_loop_sum [OF l, of 0] s have "sum_list (map length_f (files_ti ti)) = total_size_ti ti"
    by simp
  moreover have "files_ti ti \<noteq> [] \<longrightarrow> offset (hd (files_ti ti)) = 0"
    using files_loop_hd [OF l] by blast
  moreover have "\<forall>i. Suc i < length (files_ti ti) \<longrightarrow>
      offset (files_ti ti ! i) + length_f (files_ti ti ! i) = offset (files_ti ti ! Suc i)"
    using files_loop_adjacent [OF l] by blast
  ultimately show ?thesis by blast
qed

lemma example_multi_parse:
  "parse_torrent_info example_digest ''a'' example_multi =
     Inr \<lparr>name_ti = ''dir'', total_size_ti = 12, piece_length_ti = 10,
          pieces_ti =
            [\<lparr>index = 0, size_p = 10, hash = PBytes (replicate 20 (CHR ''x'')), data = None,
               downloaded_p = False\<rparr>,
             \<lparr>index = 1, size_p = 2, hash = PBytes (replicate 20 (CHR ''x'')), data = None,
               downloaded_p = False\<rparr>],
          files_ti =
            [\<lparr>path = ''d/a.txt'', length_f = 7, offset = 0, downloaded_f = False, selected = True\<rparr>,
             \<lparr>path = ''b.txt'', length_f = 5, offset = 7, downloaded_f = False, selected = True\<rparr>],
          is_multi_file_ti = True,
          info_hash_ti = ''hhhhhhhhhhhhhhhhhhhh''\<rparr>"
  by (simp add: example_multi_def parse_eval file_entry_def join_slash_def)

theorem C8_file_offsets_witness:
  "(case parse_torrent_info example_digest ''a'' example_multi of
      Inl e \<Rightarrow> False
    | Inr ti \<Rightarrow>
        is_multi_file_ti ti \<and> length (files_ti ti) = 2
        \<and> sum_list (map length_f (files_ti ti)) = 12
        \<and> offset (files_ti ti ! 0) = 0
        \<and> offset (files_ti ti ! 0) + length_f (files_ti ti ! 0) = offset (files_ti ti ! 1))"
proof -
  obtain ti where p: "parse_torrent_info example_digest ''a'' example_multi = Inr ti"
    and m: "is_multi_file_ti ti" and n: "length (files_ti ti) = 2" and t: "total_size_ti ti = 12"
    using example_multi_parse by simp
  from C8_file_offsets [OF p m] n t have
    "sum_list (map length_f (files_ti ti)) = 12"
    "offset (hd (files_ti ti)) = 0"
    "offset (files_ti ti ! 0) + length_f (files_ti ti ! 0) = offset (files_ti ti ! 1)"
    by auto
  moreover have "hd (files_ti ti) = files_ti ti ! 0" using n by (cases "files_ti ti") simp_all
  ultimately show ?thesis using p m n by simp
qed

text \<open>\<^verbatim>\<open>Download.add_files\<close> on a download without files lays its files out the same way.\<close>

lemma add_files_offsets:
  assumes "add_files files_info download = Inr download'" and "files download = []"
  shows "(files download' \<noteq> [] \<longrightarrow> offset (hd (files download')) = 0)
       \<and> (\<forall>i. Suc i < length (files download') \<longrightarrow>
             offset (files download' ! i) + length_f (files download' ! i)
               = offset (files download' ! Suc i))"
proof -
  from assms obtain fs where l: "files_loop fs 0 = Inr (files download')"
    by (auto simp: add_files_def ebind_Inr_iff)
  show ?thesis using files_loop_hd [OF l] files_loop_adjacent [OF l] by blast
qed

lemma wait_while_paused_passes:
  "\<not> (paused d \<and> downloading d) \<Longrightarrow> wait_while_paused d = Some ()"
  by (subst wait_while_paused.simps) auto

lemma wait_while_paused_Some:
  assumes "wait_while_paused d = Some u"
  shows "\<not> (paused d \<and> downloading d)"
  by (rule wait_while_paused.raw_induct
        [where P = "\<lambda>d u. \<not> (paused d \<and> downloading d)", OF _ assms])
     (auto split: if_splits)

lemma wait_while_paused_blocks:
  "paused d \<and> downloading d \<Longrightarrow> wait_while_paused d = None"
  using wait_while_paused_Some [of d] by (cases "wait_while_paused d") auto

lemma wait_while_worker_paused_passes:
  "\<not> (paused_w w \<and> \<not> stopped w) \<Longrightarrow> wait_while_worker_paused w = Some ()"
  by (subst wait_while_worker_paused.simps) auto

text \<open>
  C3. For a download whose completed flag is set, start returns true, hands no task to the
  event loop, and returns the download (and the worker) as it was, so that the downloaded pieces
  and the progress are unchanged: in app.py, in models/download.py and in the worker.
\<close>

theorem C3_start_completed:
  assumes "completed d" and "completed (download_w w)"
  shows "app_start_download d = (d, [], True)
       \<and> start_download d = (d, True)
       \<and> worker_start w = (w, [], True)"
  using assms by (simp add: app_start_download_def start_download_def worker_start_def)

theorem C3_start_completed_witness:
  "completed (example_download\<lparr>completed := True, downloaded_pieces := {0, 1}, download_progress := 100\<rparr>)
   \<and> app_start_download (example_download\<lparr>completed := True, downloaded_pieces := {0, 1}, download_progress := 100\<rparr>)
       = (example_download\<lparr>completed := True, downloaded_pieces := {0, 1}, download_progress := 100\<rparr>, [], True)
   \<and> start_download (example_download\<lparr>completed := True, downloaded_pieces := {0, 1}, download_progress := 100\<rparr>)
       = (example_download\<lparr>completed := True, downloaded_pieces := {0, 1}, download_progress := 100\<rparr>, True)
   \<and> fst (snd (worker_start (new_DownloadWorker (example_download\<lparr>completed := True\<rparr>)))) = []"
  using C3_start_completed [of "example_download\<lparr>completed := True, downloaded_pieces := {0, 1}, download_progress := 100\<rparr>"
      "new_DownloadWorker (example_download\<lparr>completed := True\<rparr>)"]
  by (simp add: new_DownloadWorker_def)

lemma resumed_download_loaded:
  "new_Download ''0123456789abcdef'' ''a.bin'' 20 [example_piece 0 10, example_piece 1 10]
     ''downloads'' example_settings False resumed_fs = Inr resumed_download"
  by (simp add: new_Download_def resumed_fs_def load_state_def state_file_def download_folder_def
      path_join_def resumed_download_def example_download_def)

lemma length_padded: "int (length (padded xs n)) = max (int (length xs)) n"
  by (simp add: padded_def)

lemma length_py_slice_le:
  assumes "0 \<le> a" "0 \<le> n"
  shows "int (length (py_slice xs a (a + n))) \<le> n"
  using assms by (simp add: py_slice_nonneg)

lemma length_piece_data:
  assumes "0 \<le> a" "0 \<le> n"
  shows "int (length (padded (py_slice xs a (a + n)) n)) = n"
  using length_py_slice_le [OF assms, of xs] by (simp add: length_padded)

lemmas scheduler_eval =
  async_download_worker_def process_batches.simps process_batch.simps record_piece_def
  batch_starts_def BATCH_SIZE_app_def total_size_to_download_def pad_file_data_def
  write_files_with_real_data_def save_state_def state_file_def download_folder_def
  path_join_def wait_while_paused_passes app_start_download_def

lemma resume_app:
  "\<exists>d' fs'.
     async_download_worker source (fst (app_start_download resumed_download)) resumed_fs
       = Some (d', fs')
     \<and> downloaded_pieces d' = {0, 1} \<and> completed d'
     \<and> downloaded_size d' = 10 \<and> download_progress d' = 50"
  using length_piece_data [of 10 10 "padded source 20"]
  by (simp add: scheduler_eval resumed_download_def example_download_def example_piece_def
      example_settings_def resumed_fs_def upt_rec Let_def insert_commute)

lemmas worker_eval =
  download_worker_def worker_batches.simps worker_batch.simps worker_piece_def download_piece_def
  batch_starts_def BATCH_SIZE_def complete_download_def worker_stop_def worker_start_def
  new_DownloadWorker_def save_state_def state_file_def download_folder_def path_join_def
  wait_while_worker_paused_passes

lemma resume_worker:
  "\<exists>w' fs'.
     download_worker content (fst (worker_start (new_DownloadWorker resumed_download))) resumed_fs
       = Some (w', fs')
     \<and> downloaded_pieces (download_w w') = {0, 1} \<and> completed (download_w w')
     \<and> total_size (download_w w') = 20
     \<and> downloaded_size (download_w w') = 30 \<and> download_progress (download_w w') = 100"
  by (simp add: worker_eval resumed_download_def example_download_def example_piece_def
      example_settings_def resumed_fs_def upt_rec Let_def insert_commute)

text \<open>
  C4. A download of two pieces of 10 bytes whose saved state holds piece 0 and 10 bytes is
  constructed from that state, started and run to the end. The scheduler of app.py skips
  piece 0 and records piece 1, but it counts the bytes from 0 again: the run ends completed
  with 10 downloaded bytes and a progress of 50, not 100. The scheduler of
  core/download_worker.py skips nothing and adds the size of piece 0 a second time: it ends
  with 30 downloaded bytes of 20.
\<close>

theorem C4_resume_run:
  "new_Download ''0123456789abcdef'' ''a.bin'' 20 [example_piece 0 10, example_piece 1 10]
     ''downloads'' example_settings False resumed_fs = Inr resumed_download
   \<and> (\<exists>d' fs'.
         async_download_worker source (fst (app_start_download resumed_download)) resumed_fs
           = Some (d', fs')
         \<and> downloaded_pieces d' = {0, 1} \<and> completed d'
         \<and> downloaded_size d' = 10 \<and> download_progress d' = 50)
   \<and> (\<exists>w' fs'.
         download_worker content (fst (worker_start (new_DownloadWorker resumed_download))) resumed_fs
           = Some (w', fs')
         \<and> downloaded_pieces (download_w w') = {0, 1} \<and> completed (download_w w')
         \<and> total_size (download_w w') = 20
         \<and> downloaded_size (download_w w') = 30 \<and> download_progress (download_w w') = 100)"
  using resumed_download_loaded resume_app resume_worker by blast



















lemma example_id: "take 16 (hex (example_digest v)) = ''6868686868686868''"
  by (simp add: example_digest_def hex_def hex_digit_def)

lemma example_multi_read:
  "read_info ''a'' (PDict
       [(''files'', PList
           [PDict [(''length'', PInt 7), (''path'', PList [PBytes ''d'', PBytes ''a.txt''])],
            PDict [(''length'', PInt 5), (''path'', PList [PBytes ''b.txt''])]]),
        (''name'', PBytes ''dir''),
        (''piece length'', PInt 10),
        (''pieces'', PBytes (replicate 40 (CHR ''x'')))])
   = Inr (''dir'', 12, 10, pieces example_multi_download, True,
          PList
           [PDict [(''length'', PInt 7), (''path'', PList [PBytes ''d'', PBytes ''a.txt''])],
            PDict [(''length'', PInt 5), (''path'', PList [PBytes ''b.txt''])]])"
  by (simp add: read_info_def ebind_def name_or_def valid_utf8_def upt_rec py_slice_def
      clamp_index_def example_multi_download_def float_eval)

lemma example_multi_registered:
  "parse_torrent example_digest ''a'' example_multi example_settings (empty_registry, empty_fs) =
     ((example_multi_registry, save_downloads_state example_multi_registry empty_fs),
      Some ''6868686868686868'', True)"
  by (simp add: parse_torrent_def parse_torrent_body_def example_multi_def example_multi_read
      example_id ebind_def valid_utf8_def
      file_entry_def join_slash_def add_files_def new_Download_def load_state_def state_file_def
      download_folder_def path_join_def empty_registry_def empty_fs_def Let_def
      example_multi_registry_def example_multi_download_def)

lemma selection_scenario_eq:
  "selection_scenario =
     (\<lparr>downloads =
         [(''6868686868686868'',
           example_multi_download\<lparr>files :=
             [\<lparr>path = ''d/a.txt'', length_f = 7, offset = 0, downloaded_f = False, selected = True\<rparr>,
              \<lparr>path = ''b.txt'', length_f = 5, offset = 7, downloaded_f = False, selected = False\<rparr>]\<rparr>)],
       download_dir_r = ''downloads''\<rparr>,
      \<lparr>state_files = [''downloads/6868686868686868/state.json'' \<mapsto>
         \<lparr>downloaded_pieces_s = {}, downloaded_size_s = 0, completed_s = False,
          file_selections_s = [''d/a.txt'' \<mapsto> True, ''b.txt'' \<mapsto> False]\<rparr>],
       disk = Map.empty,
       index_file = Some [(''6868686868686868'', index_entry_of example_multi_download)],
       unwritable = {}\<rparr>)"
  unfolding selection_scenario_def example_multi_registered
  by (simp add: registry_update_file_selection_def
      update_file_selection_def save_state_def save_downloads_state_def STATE_FILE_def
      state_file_def download_folder_def path_join_def file_selections_of_def
      example_multi_registry_def example_multi_download_def empty_fs_def Let_def)

lemma restarted_eq:
  "restarted =
     \<lparr>downloads = [(''6868686868686868'', example_multi_download)],
      download_dir_r = ''downloads''\<rparr>"
  by (simp add: restarted_def selection_scenario_eq load_downloads_def load_entry_def
      index_entry_of_def new_Download_def load_state_def state_file_def download_folder_def
      path_join_def ebind_def example_multi_download_def empty_registry_def Let_def)

text \<open>
  C6. A multi-file torrent is parsed, its file b.txt is deselected (which saves the state of
  the download, with the selection), and the process starts again. The state file holds the
  selection, but the constructor loads it while the new download has no files yet, and the
  files that follow come from the global index, which \<^verbatim>\<open>update_file_selection\<close> does not save:
  b.txt is selected again.
\<close>

theorem C6_selection_lost:
  "map (\<lambda>kv. map selected (files (snd kv))) (downloads (fst selection_scenario)) = [[True, False]]
   \<and> map_option (\<lambda>st. (file_selections_s st ''d/a.txt'', file_selections_s st ''b.txt''))
        (state_files (snd selection_scenario) ''downloads/6868686868686868/state.json'')
       = Some (Some True, Some False)
   \<and> map (\<lambda>kv. map selected (files (snd kv))) (downloads restarted) = [[True, True]]"
  by (simp add: selection_scenario_eq restarted_eq example_multi_download_def)

lemma save_state_load_state:
  assumes "state_file d \<notin> unwritable fs" and "state_file d0 = state_file d"
  shows "downloaded_pieces (load_state (save_state d fs) d0) = downloaded_pieces d
       \<and> downloaded_size (load_state (save_state d fs) d0) = downloaded_size d
       \<and> completed (load_state (save_state d fs) d0) = completed d"
  using assms by (simp add: load_state_def save_state_def)

lemma new_Download_after_save:
  assumes "state_file d \<notin> unwritable fs" and "download_folder d \<notin> unwritable fs"
  shows "\<exists>d'. new_Download (torrent_id d) (name d) (total_size d) (pieces d) (download_dir d)
                 (settings d) (is_multi_file d) (save_state d fs) = Inr d'
              \<and> downloaded_pieces d' = downloaded_pieces d
              \<and> downloaded_size d' = downloaded_size d
              \<and> completed d' = completed d
              \<and> files d' = []"
  using assms
  by (simp add: new_Download_def load_state_def save_state_def state_file_def download_folder_def
      Let_def)

lemma write_selected_unwritable:
  "unwritable (snd (write_selected folder file_data off fls fs)) = unwritable fs"
  by (induction fls arbitrary: off fs) (simp_all add: Let_def)






















end
